theory Spec2Isabelle
  imports Complex_Main "HOL-Library.AList"
begin

section \<open>Python values shared by the modules\<close>

text \<open>
  Exceptions are values. Only the class of an exception is kept, since every handler of
  the repository selects by class; the message texts are not modelled.
  \<open>JSONDecodeError\<close> is the error of \<open>Response.json()\<close>; in the requests library
  it is a subclass of \<open>RequestException\<close>, which \<open>is_request_exception\<close> records.
\<close>

datatype py_error =
    ValueError
  | ValidationError
  | RequestException
  | HTTPError
  | JSONDecodeError
  | TypeError
  | AttributeError
  | KeyError
  | PermissionDenied
  | Http404

definition is_request_exception :: "py_error \<Rightarrow> bool" where
  "is_request_exception e = (e = RequestException \<or> e = HTTPError \<or> e = JSONDecodeError)"

text \<open>
  A Python \<open>str\<close> is modelled as a list of 8-bit code points. On these the regular
  expression class \<open>\d\<close> is exactly the ten ASCII digits.
\<close>

definition is_digit :: "char \<Rightarrow> bool" where
  "is_digit c = (c \<in> set ''0123456789'')"

definition startswith :: "string \<Rightarrow> string \<Rightarrow> bool" where
  "startswith s p = (take (length p) s = p)"

definition endswith :: "string \<Rightarrow> string \<Rightarrow> bool" where
  "endswith s p = (length p \<le> length s \<and> drop (length s - length p) s = p)"

section \<open>tickets/utils.py: normalize_phone_number\<close>

text \<open>
  \<open>re.sub(r'\D', '', value)\<close> keeps the digits of \<open>value\<close> in order. Each
  \<open>raise ValueError\<close> of the source is an \<open>Inl ValueError\<close> branch, in the source's
  order.
\<close>

definition normalize_phone_number :: "string \<Rightarrow> string \<Rightarrow> py_error + string" where
  "normalize_phone_number val default_country_code =
     (if val = [] then Inl ValueError
      else
        let digits = filter is_digit val in
        if digits = [] then Inl ValueError
        else
          let digits = (if startswith digits ''00'' then drop 2 digits else digits);
              digits = (if length digits \<in> {10, 11} then default_country_code @ digits
                        else digits)
          in
            if length digits \<notin> {12, 13} then Inl ValueError
            else if \<not> startswith digits default_country_code then Inl ValueError
            else Inr digits)"

section \<open>tickets/models.py: WhatsAppRecipient\<close>

record whatsapp_recipient =
  name :: string
  phone_number :: string
  original_input :: string

text \<open>
  \<open>WhatsAppRecipient.clean\<close>: the \<open>ValueError\<close> of the normaliser becomes a
  \<open>ValidationError\<close>; otherwise the raw input is kept in \<open>original_input\<close> and the
  normalised number replaces \<open>phone_number\<close>.
\<close>

definition recipient_clean :: "whatsapp_recipient \<Rightarrow> py_error + whatsapp_recipient" where
  "recipient_clean r =
     (case normalize_phone_number (phone_number r) ''55'' of
        Inl ValueError \<Rightarrow> Inl ValidationError
      | Inl e \<Rightarrow> Inl e
      | Inr normalized \<Rightarrow>
          Inr (r\<lparr>original_input := phone_number r, phone_number := normalized\<rparr>))"

text \<open>
  \<open>WhatsAppRecipient.save\<close> runs \<open>full_clean\<close> and then stores the row. The
  framework's \<open>full_clean\<close> runs the field validators, then \<open>clean\<close>, then the
  uniqueness check, and raises \<open>ValidationError\<close> when any of them failed. The
  field validators are \<open>fields_valid\<close> (a parameter: they are the framework's), the
  uniqueness of \<open>phone_number\<close> is checked against the stored rows. The table is the
  list of stored rows, newest first.
\<close>

definition recipient_save ::
  "(whatsapp_recipient \<Rightarrow> bool) \<Rightarrow> whatsapp_recipient list \<Rightarrow> whatsapp_recipient
     \<Rightarrow> py_error + whatsapp_recipient list" where
  "recipient_save fields_valid table r =
     (case recipient_clean r of
        Inl e \<Rightarrow> Inl e
      | Inr r' \<Rightarrow>
          if \<not> fields_valid r then Inl ValidationError
          else if phone_number r' \<in> set (map phone_number table) then Inl ValidationError
          else Inr (r' # table))"



section \<open>JSON values as Python reads them\<close>

text \<open>
  The value of \<open>Response.json()\<close>. \<open>JNull\<close> is \<open>None\<close>, which is also what
  \<open>dict.get\<close> gives for a missing key. A parsed object has each key once, so looking a
  key up in the list of its items is \<open>map_of\<close>. A float is a rational here (a parsed
  number is finite).
\<close>

datatype json =
    JNull
  | JBool bool
  | JInt int
  | JFloat rat
  | JStr string
  | JList "json list"
  | JDict "(string \<times> json) list"

fun truthy :: "json \<Rightarrow> bool" where
  "truthy JNull = False"
| "truthy (JBool b) = b"
| "truthy (JInt n) = (n \<noteq> 0)"
| "truthy (JFloat q) = (q \<noteq> 0)"
| "truthy (JStr s) = (s \<noteq> [])"
| "truthy (JList xs) = (xs \<noteq> [])"
| "truthy (JDict d) = (d \<noteq> [])"

text \<open>Python's \<open>a or b\<close>: the first operand when it is truthy, else the second.\<close>

definition py_or :: "json \<Rightarrow> json \<Rightarrow> json" where
  "py_or a b = (if truthy a then a else b)"

definition dict_get :: "(string \<times> json) list \<Rightarrow> string \<Rightarrow> json" where
  "dict_get d k = (case map_of d k of None \<Rightarrow> JNull | Some v \<Rightarrow> v)"

text \<open>
  \<open>for raw in groups\<close>: a list yields its elements, a string its characters, a dict
  its keys; a number, a boolean or \<open>None\<close> is not iterable and raises \<open>TypeError\<close>.
\<close>

fun py_iter :: "json \<Rightarrow> py_error + json list" where
  "py_iter (JList xs) = Inr xs"
| "py_iter (JStr s) = Inr (map (\<lambda>c. JStr [c]) s)"
| "py_iter (JDict d) = Inr (map (\<lambda>kv. JStr (fst kv)) d)"
| "py_iter JNull = Inl TypeError"
| "py_iter (JBool b) = Inl TypeError"
| "py_iter (JInt n) = Inl TypeError"
| "py_iter (JFloat q) = Inl TypeError"

text \<open>\<open>entry[key]\<close>: \<open>KeyError\<close> on a dict without the key, \<open>TypeError\<close> on any
  other value (a string key subscripts nothing else).\<close>

fun subscript :: "json \<Rightarrow> string \<Rightarrow> py_error + json" where
  "subscript (JDict d) k = (case map_of d k of None \<Rightarrow> Inl KeyError | Some v \<Rightarrow> Inr v)"
| "subscript JNull k = Inl TypeError"
| "subscript (JBool b) k = Inl TypeError"
| "subscript (JInt n) k = Inl TypeError"
| "subscript (JFloat q) k = Inl TypeError"
| "subscript (JStr s) k = Inl TypeError"
| "subscript (JList xs) k = Inl TypeError"

section \<open>tickets/wapi.py: the group list\<close>

subsection \<open>_normalize_groups_payload\<close>

text \<open>
  Lines 57 to 64: \<open>result\<close> and then \<open>groups\<close> are picked from the payload.
\<close>

definition select_groups :: "json \<Rightarrow> json" where
  "select_groups payload =
     (let result = (case payload of
                      JDict d \<Rightarrow> py_or (dict_get d ''result'') (py_or (dict_get d ''data'') payload)
                    | _ \<Rightarrow> payload)
      in case result of
           JDict d \<Rightarrow> py_or (dict_get d ''groups'')
                       (py_or (dict_get d ''chats'') (py_or (dict_get d ''sessions'') (JList [])))
         | JList xs \<Rightarrow> result
         | _ \<Rightarrow> JList [])"

text \<open>
  The body of the loop, lines 67 to 76: \<open>None\<close> is \<open>continue\<close>, \<open>Some g\<close> is the
  dict appended to \<open>normalized\<close>.
\<close>

definition normalize_entry :: "json \<Rightarrow> json option" where
  "normalize_entry raw =
     (case raw of
        JDict d \<Rightarrow>
          let group_id = py_or (dict_get d ''id'') (py_or (dict_get d ''jid'') (dict_get d ''chatId''))
          in if \<not> truthy group_id then None
             else Some (JDict
               [(''id'', group_id),
                (''name'', py_or (dict_get d ''subject'')
                            (py_or (dict_get d ''name'')
                              (py_or (dict_get d ''title'') (JStr ''Sem nome'')))),
                (''participantsCount'', py_or (dict_get d ''participantsCount'')
                            (py_or (dict_get d ''participants'') (dict_get d ''size'')))])
      | _ \<Rightarrow> None)"

fun normalize_loop :: "json list \<Rightarrow> json list \<Rightarrow> json list" where
  "normalize_loop [] normalized = normalized"
| "normalize_loop (raw # groups) normalized =
     (case normalize_entry raw of
        None \<Rightarrow> normalize_loop groups normalized
      | Some g \<Rightarrow> normalize_loop groups (normalized @ [g]))"

definition normalize_groups_payload :: "json \<Rightarrow> py_error + json list" where
  "normalize_groups_payload payload =
     (case py_iter (select_groups payload) of
        Inl e \<Rightarrow> Inl e
      | Inr groups \<Rightarrow> Inr (normalize_loop groups []))"

subsection \<open>The endpoints\<close>

text \<open>
  The module constants are read from the process environment, with the defaults of the
  source. \<open>os.getenv(k, d)\<close> is \<open>getenv env k d\<close>.
\<close>

type_synonym environ = "string \<Rightarrow> string option"

definition getenv :: "environ \<Rightarrow> string \<Rightarrow> string \<Rightarrow> string" where
  "getenv env k d = (case env k of None \<Rightarrow> d | Some v \<Rightarrow> v)"

definition WAPI_INSTANCE :: "environ \<Rightarrow> string" where
  "WAPI_INSTANCE env = getenv env ''WAPI_INSTANCE'' ''LITE-F75JN4-FWW3NA''"

definition WAPI_BASE :: "environ \<Rightarrow> string" where
  "WAPI_BASE env = getenv env ''WAPI_BASE_URL'' ''https://api.w-api.app/v1''"

definition WAPI_SEND_URL :: "environ \<Rightarrow> string" where
  "WAPI_SEND_URL env = WAPI_BASE env @ ''/message/send-text?instanceId='' @ WAPI_INSTANCE env"

definition WAPI_GROUPS_URL :: "environ \<Rightarrow> string" where
  "WAPI_GROUPS_URL env =
     getenv env ''WAPI_GROUPS_URL'' (WAPI_BASE env @ ''/groups?instanceId='' @ WAPI_INSTANCE env)"

definition WAPI_LEGACY_GROUPS_URL :: "environ \<Rightarrow> string" where
  "WAPI_LEGACY_GROUPS_URL env =
     WAPI_BASE env @ ''/whatsapp/group/list?instanceId='' @ WAPI_INSTANCE env"

definition WAPI_API_GROUPS_URL :: "environ \<Rightarrow> string" where
  "WAPI_API_GROUPS_URL env =
     getenv env ''WAPI_API_GROUPS_URL'' (WAPI_BASE env @ ''/api/'' @ WAPI_INSTANCE env @ ''/groups'')"

definition WAPI_GET_ALL_GROUPS_URL :: "environ \<Rightarrow> string" where
  "WAPI_GET_ALL_GROUPS_URL env =
     getenv env ''WAPI_GET_ALL_GROUPS_URL''
       (WAPI_BASE env @ ''/group/get-all-groups?instanceId='' @ WAPI_INSTANCE env)"

definition endpoints :: "environ \<Rightarrow> string list" where
  "endpoints env =
     [WAPI_GET_ALL_GROUPS_URL env, WAPI_API_GROUPS_URL env, WAPI_GROUPS_URL env,
      WAPI_LEGACY_GROUPS_URL env]"

subsection \<open>Responses of the HTTP client\<close>

text \<open>
  A response is its status code and its body as \<open>json()\<close> reads it (\<open>None\<close>: the
  body is not JSON, and \<open>json()\<close> raises). \<open>raise_for_status\<close> raises \<open>HTTPError\<close>
  for a status from 400 to 599. The truth value of a response object is its \<open>ok\<close>
  property, which is false exactly when \<open>raise_for_status\<close> would raise; so
  \<open>not response\<close> holds for \<open>None\<close> and for every 4xx or 5xx response.
\<close>

datatype response = Response (status_code: int) (json_body: "json option")

definition raise_for_status :: "response \<Rightarrow> py_error + unit" where
  "raise_for_status r =
     (if 400 \<le> status_code r \<and> status_code r < 600 then Inl HTTPError else Inr ())"

definition response_falsy :: "response option \<Rightarrow> bool" where
  "response_falsy resp =
     (case resp of
        None \<Rightarrow> True
      | Some r \<Rightarrow> (case raise_for_status r of Inl e \<Rightarrow> True | Inr u \<Rightarrow> False))"

definition response_json :: "response \<Rightarrow> py_error + json" where
  "response_json r = (case json_body r of None \<Rightarrow> Inl JSONDecodeError | Some v \<Rightarrow> Inr v)"

text \<open>
  The service as one call sees it: what a GET of each URL gives, an exception or a
  response. Headers and timeout are part of it.
\<close>

type_synonym http_get = "string \<Rightarrow> py_error + response"

subsection \<open>list_wapi_groups\<close>

text \<open>
  The loop of lines 93 to 102 over the remaining endpoints. \<open>response\<close> is the loop's
  variable, \<open>tried\<close> the URLs requested so far, in order. An exception that is not a
  \<open>RequestException\<close> is not caught and leaves the function.
\<close>

fun fetch_loop ::
  "http_get \<Rightarrow> string list \<Rightarrow> response option \<Rightarrow> string list
     \<Rightarrow> (py_error + response option) \<times> string list" where
  "fetch_loop http [] response tried = (Inr response, tried)"
| "fetch_loop http (url # urls) response tried =
     (case http url of
        Inl e \<Rightarrow>
          if is_request_exception e then fetch_loop http urls response (tried @ [url])
          else (Inl e, tried @ [url])
      | Inr r \<Rightarrow>
          if status_code r = 404 then fetch_loop http urls (Some r) (tried @ [url])
          else (Inr (Some r), tried @ [url]))"

text \<open>Lines 103 to 110, on the loop's final \<open>response\<close>.\<close>

definition groups_of_response :: "response option \<Rightarrow> py_error + json list" where
  "groups_of_response response =
     (if response_falsy response then Inr []
      else case response of
             None \<Rightarrow> Inr []
           | Some r \<Rightarrow>
               if status_code r = 404 then Inr []
               else case raise_for_status r of
                      Inl e \<Rightarrow> Inl e
                    | Inr u \<Rightarrow>
                        (case response_json r of
                           Inl e \<Rightarrow> Inl e
                         | Inr payload \<Rightarrow> normalize_groups_payload payload))"

definition list_wapi_groups ::
  "environ \<Rightarrow> http_get \<Rightarrow> (py_error + json list) \<times> string list" where
  "list_wapi_groups env http =
     (case fetch_loop http (endpoints env) None [] of
        (Inl e, tried) \<Rightarrow> (Inl e, tried)
      | (Inr response, tried) \<Rightarrow> (groups_of_response response, tried))"

subsection \<open>ensure_group_exists\<close>

text \<open>
  \<open>_group_cache\<close> has the keys \<open>ts\<close> and \<open>groups\<close>, both absent at start.
  \<open>time.time()\<close> is the parameter \<open>now\<close>, a rational (the subtraction of two clock
  readings half a minute apart is exact in floating point).
\<close>

record group_cache =
  cache_ts :: "rat option"
  cache_groups :: "json list option"

definition empty_cache :: group_cache where
  "empty_cache = \<lparr>cache_ts = None, cache_groups = None\<rparr>"

text \<open>
  The condition of line 117, \<open>not groups or not cached or now - cached > 30\<close>, in
  its order: a missing or empty list, a missing or zero timestamp, an age above 30.
\<close>

definition needs_refetch :: "rat \<Rightarrow> group_cache \<Rightarrow> bool" where
  "needs_refetch now c =
     (case cache_groups c of
        None \<Rightarrow> True
      | Some groups \<Rightarrow>
          groups = [] \<or>
          (case cache_ts c of
             None \<Rightarrow> True
           | Some cached \<Rightarrow> cached = 0 \<or> now - cached > 30))"

text \<open>Line 125: \<open>any(entry["id"] == group_id for entry in groups)\<close>, left to right.\<close>

fun any_id_equals :: "json list \<Rightarrow> string \<Rightarrow> py_error + bool" where
  "any_id_equals [] group_id = Inr False"
| "any_id_equals (entry # groups) group_id =
     (case subscript entry ''id'' of
        Inl e \<Rightarrow> Inl e
      | Inr v \<Rightarrow> if v = JStr group_id then Inr True else any_id_equals groups group_id)"

definition group_check :: "json list \<Rightarrow> string \<Rightarrow> py_error + unit" where
  "group_check groups group_id =
     (case any_id_equals groups group_id of
        Inl e \<Rightarrow> Inl e
      | Inr found \<Rightarrow> if \<not> found then Inl ValueError else Inr ())"

text \<open>
  The result is the outcome, the cache after the call and the URLs requested by the
  call (none when the cached list answers).
\<close>

definition ensure_group_exists ::
  "environ \<Rightarrow> http_get \<Rightarrow> rat \<Rightarrow> group_cache \<Rightarrow> string
     \<Rightarrow> (py_error + unit) \<times> group_cache \<times> string list" where
  "ensure_group_exists env http now c group_id =
     (if needs_refetch now c then
        (case list_wapi_groups env http of
           (Inl e, tried) \<Rightarrow>
             (if is_request_exception e then Inl ValueError else Inl e, c, tried)
         | (Inr groups, tried) \<Rightarrow>
             (group_check groups group_id,
              c\<lparr>cache_groups := Some groups, cache_ts := Some now\<rparr>, tried))
      else
        (case cache_groups c of
           None \<Rightarrow> (Inl TypeError, c, [])
         | Some groups \<Rightarrow> (group_check groups group_id, c, [])))"

subsection \<open>send_whatsapp_message\<close>

text \<open>
  \<open>str.strip\<close>, \<open>str.lower\<close> and \<open>str.isdigit\<close> on 8-bit code points. The
  white space is the ASCII white space, the separators 1C to 1F, NEL (85) and the
  no-break space (A0); the upper-case letters are A to Z and C0 to DE without D7;
  \<open>isdigit\<close> holds for the ASCII digits and for the superscripts B2, B3 and B9.
\<close>

definition is_space :: "char \<Rightarrow> bool" where
  "is_space c =
     (c \<in> set [CHR 0x09, CHR 0x0A, CHR 0x0B, CHR 0x0C, CHR 0x0D, CHR 0x1C, CHR 0x1D, CHR 0x1E,
               CHR 0x1F, CHR 0x20, CHR 0x85, CHR 0xA0])"

definition strip :: "string \<Rightarrow> string" where
  "strip s = rev (dropWhile is_space (rev (dropWhile is_space s)))"

definition lower_char :: "char \<Rightarrow> char" where
  "lower_char c =
     (let n = (of_char c :: nat)
      in if (65 \<le> n \<and> n \<le> 90) \<or> (192 \<le> n \<and> n \<le> 222 \<and> n \<noteq> 215)
         then char_of (n + 32) else c)"

definition lower :: "string \<Rightarrow> string" where
  "lower s = map lower_char s"

definition py_isdigit :: "char \<Rightarrow> bool" where
  "py_isdigit c = (is_digit c \<or> c \<in> set [CHR 0xB2, CHR 0xB3, CHR 0xB9])"

definition normalize_destination :: "string \<Rightarrow> py_error + string \<times> string" where
  "normalize_destination destination =
     (let normalized = strip destination in
      if normalized = [] then Inl ValueError
      else if endswith (lower normalized) ''@g.us'' then Inr (normalized, ''group'')
      else if endswith (lower normalized) ''@c.us'' then Inr (normalized, ''contact'')
      else
        let digits = filter py_isdigit normalized in
        if digits = [] then Inl ValueError else Inr (digits, ''contact''))"

text \<open>
  \<open>_normalize_response\<close> calls \<open>result.get\<close>, which only a dict has. The test
  \<open>status in SUCCESS_STATUSES\<close> hashes \<open>status\<close>, which raises \<open>TypeError\<close> for
  a list or a dict; only a string can be a member.
\<close>

definition normalize_response :: "json \<Rightarrow> py_error + json \<times> json" where
  "normalize_response result =
     (case result of
        JDict d \<Rightarrow>
          Inr (py_or (dict_get d ''status'') (dict_get d ''state''),
               py_or (dict_get d ''messageId'') (dict_get d ''insertedId''))
      | _ \<Rightarrow> Inl AttributeError)"

definition SUCCESS_STATUSES :: "string list" where
  "SUCCESS_STATUSES = [''success'', ''sent'', ''ok'', ''queued'']"

definition in_success_statuses :: "json \<Rightarrow> py_error + bool" where
  "in_success_statuses v =
     (case v of
        JList xs \<Rightarrow> Inl TypeError
      | JDict d \<Rightarrow> Inl TypeError
      | JStr x \<Rightarrow> Inr (x \<in> set SUCCESS_STATUSES)
      | _ \<Rightarrow> Inr False)"

text \<open>
  The service's answer to the POST of a message, by destination, and lines 151 to 166
  on it. An exception of \<open>requests.post\<close> itself is outside the \<open>try\<close> and leaves
  the function as it is.
\<close>

type_synonym http_post = "string \<Rightarrow> py_error + response"

definition post_result :: "http_post \<Rightarrow> string \<Rightarrow> py_error + json" where
  "post_result post dest =
     (case post dest of
        Inl e \<Rightarrow> Inl e
      | Inr response \<Rightarrow>
          (case raise_for_status response of
             Inl e \<Rightarrow> Inl e
           | Inr u \<Rightarrow>
               (case response_json response of
                  Inl e \<Rightarrow> Inl e
                | Inr result \<Rightarrow>
                    (case normalize_response result of
                       Inl e \<Rightarrow> Inl e
                     | Inr (st, message_id) \<Rightarrow>
                         (case in_success_statuses st of
                            Inl e \<Rightarrow> Inl e
                          | Inr member \<Rightarrow>
                              let ok_result = (member \<or> truthy message_id)
                              in if \<not> ok_result then Inl RequestException
                                 else Inr result)))))"

text \<open>
  The calls a request makes to the outside, in the order they are made. Message texts
  are not modelled: a POST is its URL and destination, a mail its recipient.
\<close>

datatype 'a effect =
    GroupSend string string 'a "(string \<times> string) list option"
  | HttpGet string
  | HttpPost string string
  | SendMail string
  | FlashMessage string

definition send_whatsapp_message ::
  "environ \<Rightarrow> http_get \<Rightarrow> http_post \<Rightarrow> rat \<Rightarrow> group_cache \<Rightarrow> string
     \<Rightarrow> (py_error + json) \<times> group_cache \<times> 'a effect list" where
  "send_whatsapp_message env http post now c destination =
     (case normalize_destination destination of
        Inl e \<Rightarrow> (Inl e, c, [])
      | Inr (dest, dest_type) \<Rightarrow>
          (case (if dest_type = ''group'' then ensure_group_exists env http now c dest
                 else (Inr (), c, [])) of
             (Inl e, c', tried) \<Rightarrow> (Inl e, c', map HttpGet tried)
           | (Inr u, c', tried) \<Rightarrow>
               (post_result post dest, c',
                map HttpGet tried @ [HttpPost (WAPI_SEND_URL env) dest])))"

section \<open>tickets/models.py: users, tickets, events\<close>

text \<open>
  A user of the framework's auth model, with the names of the groups it belongs to.
  \<open>full_name\<close> is what \<open>get_full_name()\<close> returns. Passwords are not modelled.
\<close>

record user =
  uid :: nat
  username :: string
  full_name :: string
  email :: string
  is_staff :: bool
  is_superuser :: bool
  user_groups :: "string list"

definition TicketStatus_NEW :: string where "TicketStatus_NEW = ''new''"
definition TicketStatus_IN_PROGRESS :: string where "TicketStatus_IN_PROGRESS = ''in_progress''"
definition TicketStatus_AWAITING :: string where "TicketStatus_AWAITING = ''awaiting''"
definition TicketStatus_RESOLVED :: string where "TicketStatus_RESOLVED = ''resolved''"

definition TicketStatus_choices :: "(string \<times> string) list" where
  "TicketStatus_choices =
     [(TicketStatus_NEW, ''Novo''), (TicketStatus_IN_PROGRESS, ''Em andamento''),
      (TicketStatus_AWAITING, ''Aguardando resposta''), (TicketStatus_RESOLVED, ''Resolvido'')]"

definition TicketUrgency_NORMAL :: string where "TicketUrgency_NORMAL = ''normal''"

definition TicketUrgency_choices :: "(string \<times> string) list" where
  "TicketUrgency_choices =
     [(''low'', ''Baixa''), (TicketUrgency_NORMAL, ''Normal''),
      (''medium'', ''M'' @ [CHR 0xE9] @ ''dia''), (''high'', ''Alta''),
      (''urgent'', ''Urgente'')]"

definition TicketType_INCIDENT :: string where "TicketType_INCIDENT = ''incident''"

definition TicketType_choices :: "(string \<times> string) list" where
  "TicketType_choices =
     [(TicketType_INCIDENT, ''Incidente''),
      (''request'', ''Solicita'' @ [CHR 0xE7, CHR 0xE3] @ ''o''),
      (''improvement'', ''Melhoria''), (''programado'', ''Programado'')]"

text \<open>\<open>get_FOO_display\<close>: the label of a value of the choices, the value itself
  otherwise.\<close>

definition display :: "(string \<times> string) list \<Rightarrow> string \<Rightarrow> string" where
  "display choices v = (case map_of choices v of None \<Rightarrow> v | Some label \<Rightarrow> label)"

text \<open>
  A ticket row together with its \<open>working_users\<close> relation. \<open>status\<close>,
  \<open>urgency\<close> and \<open>ticket_type\<close> are character fields: the choices do not
  constrain what is stored. Instants are integers.
\<close>

record ticket =
  pk :: nat
  title :: string
  description :: string
  created_by :: user
  assigned_to :: "user option"
  ticket_type :: string
  status :: string
  urgency :: string
  created_at :: int
  resolution :: "string option"
  resolved_at :: "int option"
  working_users :: "user list"

text \<open>\<open>working_users.add(u)\<close>: the relation holds a user once, by primary key.\<close>

definition m2m_add :: "user \<Rightarrow> user list \<Rightarrow> user list" where
  "m2m_add u us = (if uid u \<in> set (map uid us) then us else us @ [u])"

definition format_user :: "user \<Rightarrow> string" where
  "format_user u = (if full_name u \<noteq> [] then full_name u else username u)"

definition get_working_user_names :: "ticket \<Rightarrow> string list" where
  "get_working_user_names t =
     (let names = map format_user (working_users t) in
      if names = [] then
        (case assigned_to t of
           None \<Rightarrow> names
         | Some a \<Rightarrow> if format_user a \<noteq> [] then names @ [format_user a] else names)
      else names)"

definition EventType_CREATED :: string where "EventType_CREATED = ''created''"
definition EventType_STATUS :: string where "EventType_STATUS = ''status_change''"
definition EventType_WORKING_USER :: string where "EventType_WORKING_USER = ''working_user''"

text \<open>A \<open>TicketEvent\<close> row, without its description text and time stamp.\<close>

record ticket_event =
  ev_ticket :: nat
  ev_type :: string
  ev_status :: "string option"
  ev_performed_by :: "user option"

section \<open>tickets/utils.py: serialising and broadcasting\<close>

text \<open>\<open>serialize_ticket\<close>, without \<open>created_at\<close> and \<open>responsibles_display\<close>.\<close>

record serialized_ticket =
  s_id :: nat
  s_title :: string
  s_status :: string
  s_status_code :: string
  s_urgency :: string
  s_urgency_code :: string
  s_created_by :: string
  s_assigned_to :: "string option"
  s_type :: string
  s_type_code :: string
  s_responsibles :: "string list"

definition serialize_ticket :: "ticket \<Rightarrow> serialized_ticket" where
  "serialize_ticket t =
     \<lparr>s_id = pk t,
      s_title = title t,
      s_status = display TicketStatus_choices (status t),
      s_status_code = status t,
      s_urgency = display TicketUrgency_choices (urgency t),
      s_urgency_code = urgency t,
      s_created_by = format_user (created_by t),
      s_assigned_to = map_option format_user (assigned_to t),
      s_type = display TicketType_choices (ticket_type t),
      s_type_code = ticket_type t,
      s_responsibles = get_working_user_names t\<rparr>"

text \<open>
  What a request sees of the outside: the environment variables, the configured group
  JID, whether a channel layer is configured, the WhatsApp service, the clock readings
  \<open>time.time()\<close> and \<open>timezone.now()\<close>, whether the mail backend raises, and the
  URL of a ticket's page.
\<close>

record world =
  w_env :: environ
  w_group_jid :: string
  w_channel_layer :: bool
  w_http_get :: http_get
  w_http_post :: http_post
  w_time :: rat
  w_now :: int
  w_mail_error :: "py_error option"
  w_ticket_url :: "nat \<Rightarrow> string"

text \<open>
  The state a request works on: the ticket, its events (newest first), the group cache
  of the process and the outside calls made so far. Writes to the database and to the
  channel layer are taken to succeed.
\<close>

record state =
  st_ticket :: ticket
  st_events :: "ticket_event list"
  st_cache :: group_cache
  st_out :: "serialized_ticket effect list"

text \<open>\<open>broadcast_ticket_event\<close>: nothing is sent when no channel layer is
  configured; the payload is attached when it is not empty.\<close>

definition broadcast_ticket_event ::
  "world \<Rightarrow> string \<Rightarrow> ticket \<Rightarrow> (string \<times> string) list option
     \<Rightarrow> serialized_ticket effect list" where
  "broadcast_ticket_event w event_type t payload =
     (if \<not> w_channel_layer w then []
      else [GroupSend ''tickets'' event_type (serialize_ticket t)
              (case payload of None \<Rightarrow> None | Some p \<Rightarrow> if p = [] then None else Some p)])"

section \<open>tickets/views.py: status updates\<close>

subsection \<open>Notifications\<close>

text \<open>
  \<open>_notify_whatsapp\<close> sends to the configured group and catches
  \<open>RequestException\<close> only: any other exception of \<open>send_whatsapp_message\<close>, the
  \<open>ValueError\<close> of \<open>ensure_group_exists\<close> among them, leaves the function.
\<close>

definition notify_whatsapp :: "world \<Rightarrow> state \<Rightarrow> (py_error + unit) \<times> state" where
  "notify_whatsapp w s =
     (case send_whatsapp_message (w_env w) (w_http_get w) (w_http_post w) (w_time w)
             (st_cache s) (w_group_jid w) of
        (r, c', out) \<Rightarrow>
          let s' = s\<lparr>st_cache := c', st_out := st_out s @ out\<rparr> in
          (case r of
             Inl e \<Rightarrow> if is_request_exception e then (Inr (), s') else (Inl e, s')
           | Inr result \<Rightarrow> (Inr (), s')))"

text \<open>
  \<open>_notify_ticket_email\<close> with \<open>send_ticket_email\<close>: nothing without a recipient
  (subject and body are never empty here); otherwise \<open>send_mail\<close> is called, and
  whatever it raises is caught.
\<close>

definition notify_ticket_email :: "world \<Rightarrow> state \<Rightarrow> (py_error + unit) \<times> state" where
  "notify_ticket_email w s =
     (let recipient = email (created_by (st_ticket s)) in
      if recipient = [] then (Inr (), s)
      else
        let s' = s\<lparr>st_out := st_out s @ [SendMail recipient]\<rparr> in
        (case w_mail_error w of None \<Rightarrow> (Inr (), s') | Some e \<Rightarrow> (Inr (), s')))"

subsection \<open>_update_ticket_status\<close>

text \<open>
  \<open>payload.update(extra_payload)\<close> on the dict \<open>{'status': ...}\<close>.
\<close>

definition dict_update ::
  "(string \<times> string) list \<Rightarrow> (string \<times> string) list \<Rightarrow> (string \<times> string) list" where
  "dict_update base extra = fold (\<lambda>kv m. AList.update (fst kv) (snd kv) m) extra base"

text \<open>
  Lines 133 to 141 on the ticket object: the status, the owner, the resolution stamp.
  \<open>resolution_text or ticket.resolution\<close> keeps the new text when it is not empty.
\<close>

definition set_status :: "int \<Rightarrow> ticket \<Rightarrow> string \<Rightarrow> user option \<Rightarrow> string option \<Rightarrow> ticket" where
  "set_status now t new_status assigned resolution_text =
     (let t = t\<lparr>status := new_status\<rparr>;
          t = (case assigned of None \<Rightarrow> t | Some u \<Rightarrow> t\<lparr>assigned_to := Some u\<rparr>)
      in if new_status = TicketStatus_RESOLVED then
           t\<lparr>resolved_at := Some now,
             resolution := (case resolution_text of
                              None \<Rightarrow> resolution t
                            | Some x \<Rightarrow> if x \<noteq> [] then Some x else resolution t)\<rparr>
         else t\<lparr>resolved_at := None\<rparr>)"

text \<open>
  The whole function: the ticket is saved, the event recorded, the assigned user added
  to \<open>working_users\<close>, then the broadcast, the WhatsApp notification and the mail, in
  this order. An exception of the WhatsApp step ends the function there, with everything
  before it done.
\<close>

definition update_ticket_status ::
  "world \<Rightarrow> state \<Rightarrow> string \<Rightarrow> user option \<Rightarrow> string option
     \<Rightarrow> (string \<times> string) list option \<Rightarrow> user option \<Rightarrow> (py_error + unit) \<times> state" where
  "update_ticket_status w s new_status assigned resolution_text extra_payload performed_by =
     (let t = set_status (w_now w) (st_ticket s) new_status assigned resolution_text;
          payload = (case extra_payload of
                       None \<Rightarrow> [(''status'', status t)]
                     | Some extra \<Rightarrow> dict_update [(''status'', status t)] extra);
          ev = \<lparr>ev_ticket = pk t, ev_type = EventType_STATUS, ev_status = Some new_status,
                ev_performed_by = performed_by\<rparr>;
          t = (case assigned of
                 None \<Rightarrow> t
               | Some u \<Rightarrow> t\<lparr>working_users := m2m_add u (working_users t)\<rparr>);
          s1 = s\<lparr>st_ticket := t, st_events := ev # st_events s,
                 st_out := st_out s
                   @ broadcast_ticket_event w ''ticket_status_changed'' t (Some payload)\<rparr>
      in case notify_whatsapp w s1 of
           (Inl e, s2) \<Rightarrow> (Inl e, s2)
         | (Inr u, s2) \<Rightarrow> notify_ticket_email w s2)"

subsection \<open>_add_working_user\<close>

definition add_working_user :: "state \<Rightarrow> user \<Rightarrow> state" where
  "add_working_user s u =
     (if status (st_ticket s) = TicketStatus_RESOLVED then s
      else s\<lparr>st_ticket := (st_ticket s)\<lparr>working_users := m2m_add u (working_users (st_ticket s))\<rparr>,
             st_events := \<lparr>ev_ticket = pk (st_ticket s), ev_type = EventType_WORKING_USER,
                           ev_status = None, ev_performed_by = Some u\<rparr> # st_events s\<rparr>)"

subsection \<open>_handle_ticket_action\<close>

text \<open>
  A request: its user, method and the POST and GET parameters (each key once).
\<close>

record request =
  req_user :: user
  req_method :: string
  req_POST :: "(string \<times> string) list"
  req_GET :: "(string \<times> string) list"

datatype http_response = Redirect string | Render string int

text \<open>
  \<open>ResolutionForm\<close> of forms.py, bound to the POST data: its one field is a required
  character field of at most 1000 characters. The framework strips the value and refuses
  an empty one, one that is too long or one with a null character. The result is
  \<open>cleaned_data['resolution']\<close> when the form is valid.
\<close>

definition char_field_clean :: "nat option \<Rightarrow> string option \<Rightarrow> string option" where
  "char_field_clean max_length raw =
     (case raw of
        None \<Rightarrow> None
      | Some v \<Rightarrow>
          let x = strip v in
          if x = [] \<or> (case max_length of None \<Rightarrow> False | Some m \<Rightarrow> m < length x)
             \<or> CHR 0x00 \<in> set x
          then None else Some x)"

definition resolution_form_clean :: "(string \<times> string) list \<Rightarrow> string option" where
  "resolution_form_clean post = char_field_clean (Some 1000) (map_of post ''resolution'')"

text \<open>An update followed by the handler's \<open>return redirect(...)\<close>.\<close>

definition then_respond ::
  "(py_error + unit) \<times> state \<Rightarrow> http_response
     \<Rightarrow> (py_error + http_response option) \<times> state" where
  "then_respond r resp =
     (case r of (Inl e, s') \<Rightarrow> (Inl e, s') | (Inr u, s') \<Rightarrow> (Inr (Some resp), s'))"

definition handle_ticket_action ::
  "world \<Rightarrow> state \<Rightarrow> request \<Rightarrow> bool \<Rightarrow> (py_error + http_response option) \<times> state" where
  "handle_ticket_action w s request is_ti_user =
     (case map_of (req_POST request) ''action'' of
        None \<Rightarrow> (Inr None, s)
      | Some action \<Rightarrow>
          if action = [] then (Inr None, s)
          else
            let next_url =
                  (case map_of (req_POST request) ''next'' of
                     None \<Rightarrow> w_ticket_url w (pk (st_ticket s))
                   | Some n \<Rightarrow> if n = [] then w_ticket_url w (pk (st_ticket s)) else n)
            in
            if action = ''resolve'' \<and> is_ti_user then
              (case resolution_form_clean (req_POST request) of
                 None \<Rightarrow> (Inr None, s)
               | Some res \<Rightarrow>
                   then_respond
                     (update_ticket_status w s TicketStatus_RESOLVED None (Some res) None
                        (Some (req_user request)))
                     (Redirect ''dashboard''))
            else if action = ''in_progress'' \<and> is_ti_user then
              then_respond
                (update_ticket_status w s TicketStatus_IN_PROGRESS (Some (req_user request))
                   None None (Some (req_user request)))
                (Redirect next_url)
            else if action = ''awaiting'' \<and> is_ti_user then
              (let pause_reason =
                     strip (case map_of (req_POST request) ''pause_reason'' of
                              None \<Rightarrow> [] | Some v \<Rightarrow> v)
               in if pause_reason = [] then
                    (Inr None, s\<lparr>st_out := st_out s @ [FlashMessage ''error'']\<rparr>)
                  else
                    then_respond
                      (update_ticket_status w s TicketStatus_AWAITING None None
                         (Some [(''pause_reason'', pause_reason)]) (Some (req_user request)))
                      (Redirect next_url))
            else if action = ''reopen'' \<and> status (st_ticket s) = TicketStatus_RESOLVED then
              then_respond
                (update_ticket_status w s TicketStatus_IN_PROGRESS None None None
                   (Some (req_user request)))
                (Redirect next_url)
            else if action = ''join_work'' \<and> is_ti_user then
              (let assigned = (case assigned_to (st_ticket s) of
                                 None \<Rightarrow> req_user request | Some a \<Rightarrow> a)
               in case (if status (st_ticket s) \<noteq> TicketStatus_IN_PROGRESS then
                          update_ticket_status w s TicketStatus_IN_PROGRESS (Some assigned)
                            None None (Some (req_user request))
                        else (Inr (), s)) of
                    (Inl e, s1) \<Rightarrow> (Inl e, s1)
                  | (Inr u, s1) \<Rightarrow>
                      let s2 = add_working_user s1 (req_user request)
                      in (Inr (Some (Redirect next_url)),
                          s2\<lparr>st_out := st_out s2 @ [FlashMessage ''success'']\<rparr>))
            else (Inr None, s))"

subsection \<open>create_ticket\<close>

text \<open>
  \<open>TicketForm\<close> of forms.py, bound to the POST data: a title of at most 140
  characters, a description, and an urgency and a type out of the choices. The result is
  the cleaned data when the form is valid. Attachments are not modelled.
\<close>

definition choice_field_clean :: "(string \<times> string) list \<Rightarrow> string option \<Rightarrow> string option" where
  "choice_field_clean choices raw =
     (case raw of
        None \<Rightarrow> None
      | Some v \<Rightarrow> if v \<noteq> [] \<and> v \<in> set (map fst choices) then Some v else None)"

definition ticket_form_clean ::
  "(string \<times> string) list \<Rightarrow> (string \<times> string \<times> string \<times> string) option" where
  "ticket_form_clean post =
     (case (char_field_clean (Some 140) (map_of post ''title''),
            char_field_clean None (map_of post ''description''),
            choice_field_clean TicketUrgency_choices (map_of post ''urgency''),
            choice_field_clean TicketType_choices (map_of post ''ticket_type'')) of
        (Some ti, Some de, Some ur, Some ty) \<Rightarrow> Some (ti, de, ur, ty)
      | _ \<Rightarrow> None)"

text \<open>
  The view for a logged-in user. The new ticket takes the model's defaults for the
  fields the form does not have: status \<open>new\<close>, no owner, no resolution.
\<close>

definition create_ticket ::
  "world \<Rightarrow> request \<Rightarrow> nat \<Rightarrow> group_cache \<Rightarrow> (py_error + http_response) \<times> state option" where
  "create_ticket w request new_pk c =
     (case ticket_form_clean (req_POST request) of
        None \<Rightarrow> (Inr (Render ''ticket_form.html'' 200), None)
      | Some (ti, de, ur, ty) \<Rightarrow>
          let t = \<lparr>pk = new_pk, title = ti, description = de, created_by = req_user request,
                   assigned_to = None, ticket_type = ty, status = TicketStatus_NEW,
                   urgency = ur, created_at = w_now w, resolution = None, resolved_at = None,
                   working_users = []\<rparr>;
              ev = \<lparr>ev_ticket = new_pk, ev_type = EventType_CREATED,
                    ev_status = Some (status t), ev_performed_by = Some (created_by t)\<rparr>;
              s = \<lparr>st_ticket = t, st_events = [ev], st_cache = c,
                   st_out = FlashMessage ''success''
                     # broadcast_ticket_event w ''ticket_created'' t None\<rparr>
          in case notify_whatsapp w s of
               (Inl e, s') \<Rightarrow> (Inl e, Some s')
             | (Inr u, s') \<Rightarrow> (Inr (Redirect ''dashboard''), Some s'))"

section \<open>Vocabulary of the statements\<close>

text \<open>The environment in which no variable is set: every constant has its default.\<close>

definition default_environ :: environ where
  "default_environ = (\<lambda>k. None)"

text \<open>An endpoint is skipped when its request raises a \<open>RequestException\<close> or its
  response has status 404.\<close>

definition skipped :: "http_get \<Rightarrow> string \<Rightarrow> bool" where
  "skipped http url =
     (case http url of Inl e \<Rightarrow> is_request_exception e | Inr r \<Rightarrow> status_code r = 404)"



section \<open>tickets/views.py: the views of the IT group\<close>

subsection \<open>Access\<close>

definition TI_GROUP_NAME :: string where "TI_GROUP_NAME = ''TI''"

definition is_ti :: "user \<Rightarrow> bool" where
  "is_ti u = (TI_GROUP_NAME \<in> set (user_groups u) \<or> is_staff u)"

text \<open>
  A request as the framework hands it to a view: \<open>request.user\<close> is a user, or the
  anonymous user (\<open>None\<close>) when nobody is logged in. \<open>login_required\<close> sends an
  anonymous visitor to the login page and calls the view on the request of a user
  otherwise.
\<close>

record visit =
  v_user :: "user option"
  v_method :: string
  v_POST :: "(string \<times> string) list"
  v_GET :: "(string \<times> string) list"

datatype 'c view_response = RedirectToLogin | RedirectTo string | Page string 'c

definition login_required ::
  "(request \<Rightarrow> 'a \<Rightarrow> (py_error + 'c view_response) \<times> 'a) \<Rightarrow> visit \<Rightarrow> 'a
     \<Rightarrow> (py_error + 'c view_response) \<times> 'a" where
  "login_required view v db =
     (case v_user v of
        None \<Rightarrow> (Inr RedirectToLogin, db)
      | Some u \<Rightarrow>
          view \<lparr>req_user = u, req_method = v_method v, req_POST = v_POST v, req_GET = v_GET v\<rparr>
            db)"

text \<open>
  \<open>get_object_or_404(Model, pk=raw)\<close> on a table of rows with their keys: a missing
  parameter or key is \<open>Http404\<close>; a parameter the framework cannot convert to a key
  (\<open>to_pk\<close> gives \<open>None\<close>) raises \<open>ValueError\<close>.
\<close>

definition get_object_or_404 ::
  "(string \<Rightarrow> nat option) \<Rightarrow> (nat \<times> 'r) list \<Rightarrow> string option \<Rightarrow> py_error + nat \<times> 'r" where
  "get_object_or_404 to_pk table raw =
     (case raw of
        None \<Rightarrow> Inl Http404
      | Some x \<Rightarrow>
          (case to_pk x of
             None \<Rightarrow> Inl ValueError
           | Some k \<Rightarrow>
               (case map_of table k of None \<Rightarrow> Inl Http404 | Some r \<Rightarrow> Inr (k, r))))"

subsection \<open>manage_users\<close>

text \<open>
  The user table is the list of users. The page shows the users and those that can
  be promoted. A POST looks the target up and grants or revokes the IT role, deletes the
  user, or resets the password (which changes nothing modelled here), and redirects.
\<close>

definition is_ti_member :: "user \<Rightarrow> bool" where
  "is_ti_member u = (is_staff u \<or> TI_GROUP_NAME \<in> set (user_groups u))"

definition update_user :: "user \<Rightarrow> user list \<Rightarrow> user list" where
  "update_user u users = map (\<lambda>x. if uid x = uid u then u else x) users"

definition manage_users_body ::
  "(string \<Rightarrow> nat option) \<Rightarrow> request \<Rightarrow> user list
     \<Rightarrow> (py_error + (user list \<times> user list) view_response) \<times> user list" where
  "manage_users_body to_pk request users =
     (if \<not> is_ti (req_user request) then (Inl PermissionDenied, users)
      else
        let promotable_users = filter (\<lambda>u. \<not> is_ti_member u) users in
        if req_method request = ''POST'' then
          (case get_object_or_404 to_pk (map (\<lambda>u. (uid u, u)) users)
                  (map_of (req_POST request) ''user_id'') of
             Inl e \<Rightarrow> (Inl e, users)
           | Inr (k, target) \<Rightarrow>
               let action = map_of (req_POST request) ''action'' in
               (Inr (RedirectTo ''manage_users''),
                if action = Some ''reset_password'' then users
                else if action = Some ''grant_ti'' then
                  update_user
                    (target\<lparr>user_groups := List.insert TI_GROUP_NAME (user_groups target),
                             is_staff := True\<rparr>) users
                else if action = Some ''revoke_ti'' \<and> uid target \<noteq> uid (req_user request) then
                  update_user
                    (target\<lparr>user_groups := removeAll TI_GROUP_NAME (user_groups target),
                             is_staff := (if \<not> is_superuser target then False
                                          else is_staff target)\<rparr>) users
                else if action = Some ''delete_user'' \<and> uid target \<noteq> uid (req_user request) then
                  filter (\<lambda>x. uid x \<noteq> uid target) users
                else users))
        else (Inr (Page ''users_management.html'' (users, promotable_users)), users))"

definition manage_users ::
  "(string \<Rightarrow> nat option) \<Rightarrow> visit \<Rightarrow> user list
     \<Rightarrow> (py_error + (user list \<times> user list) view_response) \<times> user list" where
  "manage_users to_pk = login_required (manage_users_body to_pk)"

subsection \<open>inventory_management\<close>

record inventory_item =
  i_name :: string
  i_category :: string
  i_asset_tag :: string
  i_serial_number :: string
  i_location :: string
  i_assigned_to :: string
  i_status :: string
  i_notes :: string
  i_created_by :: "user option"

definition InventoryStatus_choices :: "(string \<times> string) list" where
  "InventoryStatus_choices =
     [(''in_use'', ''Em uso''), (''stock'', ''Estoque''), (''maintenance'', ''Manutencao''),
      (''discarded'', ''Descartado'')]"

text \<open>A character field that may be left empty.\<close>

definition blank_char_field_clean :: "nat option \<Rightarrow> string option \<Rightarrow> string option" where
  "blank_char_field_clean max_length raw =
     (let x = strip (case raw of None \<Rightarrow> [] | Some v \<Rightarrow> v) in
      if (case max_length of None \<Rightarrow> False | Some m \<Rightarrow> m < length x) \<or> CHR 0x00 \<in> set x
      then None else Some x)"

text \<open>\<open>InventoryItemForm\<close> of forms.py on the POST data.\<close>

definition inventory_form_clean :: "(string \<times> string) list \<Rightarrow> inventory_item option" where
  "inventory_form_clean post =
     (case (char_field_clean (Some 140) (map_of post ''name''),
            char_field_clean (Some 80) (map_of post ''category''),
            blank_char_field_clean (Some 60) (map_of post ''asset_tag''),
            blank_char_field_clean (Some 80) (map_of post ''serial_number''),
            blank_char_field_clean (Some 120) (map_of post ''location''),
            blank_char_field_clean (Some 120) (map_of post ''assigned_to''),
            choice_field_clean InventoryStatus_choices (map_of post ''status''),
            blank_char_field_clean None (map_of post ''notes'')) of
        (Some na, Some ca, Some ta, Some se, Some lo, Some asg, Some stt, Some no) \<Rightarrow>
          Some \<lparr>i_name = na, i_category = ca, i_asset_tag = ta, i_serial_number = se,
                i_location = lo, i_assigned_to = asg, i_status = stt, i_notes = no,
                i_created_by = None\<rparr>
      | _ \<Rightarrow> None)"

definition inventory_management_body ::
  "request \<Rightarrow> inventory_item list
     \<Rightarrow> (py_error + inventory_item list view_response) \<times> inventory_item list" where
  "inventory_management_body request items =
     (if \<not> is_ti (req_user request) then (Inl PermissionDenied, items)
      else
        (case (if req_method request = ''POST'' then inventory_form_clean (req_POST request)
               else None) of
           Some item \<Rightarrow>
             (Inr (RedirectTo ''inventory_management''),
              items @ [item\<lparr>i_created_by := Some (req_user request)\<rparr>])
         | None \<Rightarrow> (Inr (Page ''inventory_management.html'' items), items)))"

definition inventory_management ::
  "visit \<Rightarrow> inventory_item list
     \<Rightarrow> (py_error + inventory_item list view_response) \<times> inventory_item list" where
  "inventory_management = login_required inventory_management_body"

subsection \<open>finished_tickets\<close>

text \<open>
  \<open>_build_search_query\<close>: the texts that are not blank, each to be found in the title,
  the description or the resolution; with none of them the query is empty and does not
  filter. The database's case-insensitive containment is \<open>icontains\<close>. The order of the
  rows is not modelled.
\<close>

definition build_search_query :: "string list \<Rightarrow> string list" where
  "build_search_query texts = filter (\<lambda>x. x \<noteq> []) (map strip texts)"

definition search_matches :: "(string \<Rightarrow> string \<Rightarrow> bool) \<Rightarrow> string list \<Rightarrow> ticket \<Rightarrow> bool" where
  "search_matches icontains query t =
     list_ex (\<lambda>x. icontains (title t) x \<or> icontains (description t) x
                \<or> (case resolution t of None \<Rightarrow> False | Some r \<Rightarrow> icontains r x)) query"

definition finished_tickets_body ::
  "(string \<Rightarrow> string \<Rightarrow> bool) \<Rightarrow> request \<Rightarrow> ticket list
     \<Rightarrow> (py_error + (ticket list \<times> string) view_response) \<times> ticket list" where
  "finished_tickets_body icontains request table =
     (if \<not> is_ti (req_user request) then (Inl PermissionDenied, table)
      else
        let query_text = (case map_of (req_GET request) ''q'' of None \<Rightarrow> [] | Some x \<Rightarrow> x);
            tickets = filter (\<lambda>t. status t = TicketStatus_RESOLVED) table;
            search_query = build_search_query [query_text];
            tickets = (if search_query \<noteq> []
                       then filter (search_matches icontains search_query) tickets
                       else tickets)
        in (Inr (Page ''finished_tickets.html'' (tickets, query_text)), table))"

definition finished_tickets ::
  "(string \<Rightarrow> string \<Rightarrow> bool) \<Rightarrow> visit \<Rightarrow> ticket list
     \<Rightarrow> (py_error + (ticket list \<times> string) view_response) \<times> ticket list" where
  "finished_tickets icontains = login_required (finished_tickets_body icontains)"

subsection \<open>ti_reports\<close>

text \<open>
  A date is a year, a month and a day, compared in this order. \<open>_parse_date\<close> is the
  library's reading of \<open>%Y-%m-%d\<close> (\<open>None\<close> when it fails), and \<open>local_date\<close>
  the date of an instant in the current time zone: both are parameters.
\<close>

type_synonym date = "nat \<times> nat \<times> nat"

definition date_le :: "date \<Rightarrow> date \<Rightarrow> bool" where
  "date_le a b =
     (fst a < fst b \<or> (fst a = fst b \<and>
        (fst (snd a) < fst (snd b) \<or> (fst (snd a) = fst (snd b) \<and> snd (snd a) \<le> snd (snd b)))))"

text \<open>Lines 727 to 754: the filters of the query string narrow the ticket table.\<close>

definition report_queryset ::
  "(string \<Rightarrow> date option) \<Rightarrow> (int \<Rightarrow> date) \<Rightarrow> (string \<times> string) list \<Rightarrow> ticket list
     \<Rightarrow> ticket list" where
  "report_queryset parse_date local_date get table =
     (let param = (\<lambda>k. case map_of get k of None \<Rightarrow> [] | Some x \<Rightarrow> x);
          queryset = table;
          queryset = (if param ''status'' \<noteq> []
                      then filter (\<lambda>t. status t = param ''status'') queryset else queryset);
          queryset = (if param ''urgency'' \<noteq> []
                      then filter (\<lambda>t. urgency t = param ''urgency'') queryset else queryset);
          queryset = (if param ''ticket_type'' \<noteq> []
                      then filter (\<lambda>t. ticket_type t = param ''ticket_type'') queryset
                      else queryset);
          queryset = (case parse_date (param ''from_date'') of
                        None \<Rightarrow> queryset
                      | Some start_date \<Rightarrow>
                          filter (\<lambda>t. date_le start_date (local_date (created_at t))) queryset)
      in case parse_date (param ''to_date'') of
           None \<Rightarrow> queryset
         | Some end_date \<Rightarrow>
             filter (\<lambda>t. date_le (local_date (created_at t)) end_date) queryset)"

text \<open>
  \<open>queryset.values(field).annotate(count=Count('id'))\<close>: one row for each value of the
  field among the tickets, with the number of tickets that have it.
\<close>

definition values_count :: "(ticket \<Rightarrow> 'k) \<Rightarrow> ticket list \<Rightarrow> ('k \<times> int) list" where
  "values_count field queryset =
     map (\<lambda>k. (k, int (length (filter (\<lambda>t. field t = k) queryset))))
       (remdups (map field queryset))"

text \<open>
  Lines 759 to 769: a dict with a zero for every declared key, then one assignment for
  each row of the grouped query.
\<close>

definition count_dict ::
  "(string \<times> string) list \<Rightarrow> (ticket \<Rightarrow> string) \<Rightarrow> ticket list \<Rightarrow> (string \<times> int) list" where
  "count_dict choices field queryset =
     fold (\<lambda>row counts. AList.update (fst row) (snd row) counts)
       (values_count field queryset) (map (\<lambda>key. (key, 0)) (map fst choices))"

text \<open>
  The context of the page, without the lists of rows and the chart strings: the counts,
  and the months (year times twelve plus month) in ascending order.
\<close>

record report_context =
  total_tickets :: int
  status_counts :: "(string \<times> int) list"
  urgency_counts :: "(string \<times> int) list"
  type_counts :: "(string \<times> int) list"
  monthly_data :: "(nat \<times> int) list"
  resolved_count :: int
  pending_count :: int

definition ti_reports_body ::
  "(string \<Rightarrow> date option) \<Rightarrow> (int \<Rightarrow> date) \<Rightarrow> request \<Rightarrow> ticket list
     \<Rightarrow> (py_error + report_context view_response) \<times> ticket list" where
  "ti_reports_body parse_date local_date request table =
     (if \<not> is_ti (req_user request) then (Inl PermissionDenied, table)
      else
        let queryset = report_queryset parse_date local_date (req_GET request) table;
            st_counts = count_dict TicketStatus_choices status queryset;
            ur_counts = count_dict TicketUrgency_choices urgency queryset;
            ty_counts = count_dict TicketType_choices ticket_type queryset;
            monthly = sort_key fst
              (values_count (\<lambda>t. fst (local_date (created_at t)) * 12
                                   + fst (snd (local_date (created_at t)))) queryset);
            total = int (length queryset);
            resolved = (case map_of st_counts TicketStatus_RESOLVED of
                          None \<Rightarrow> 0 | Some n \<Rightarrow> n)
        in (Inr (Page ''reports.html''
              \<lparr>total_tickets = total, status_counts = st_counts, urgency_counts = ur_counts,
               type_counts = ty_counts, monthly_data = monthly, resolved_count = resolved,
               pending_count = total - resolved\<rparr>), table))"

definition ti_reports ::
  "(string \<Rightarrow> date option) \<Rightarrow> (int \<Rightarrow> date) \<Rightarrow> visit \<Rightarrow> ticket list
     \<Rightarrow> (py_error + report_context view_response) \<times> ticket list" where
  "ti_reports parse_date local_date = login_required (ti_reports_body parse_date local_date)"

subsection \<open>whatsapp_config\<close>

text \<open>
  \<open>WhatsAppRecipientForm\<close> with the prefix \<open>recipient\<close>: the name and the raw number
  are cleaned as character fields of at most 120 and 20 characters, the number is
  normalised, and the model's \<open>clean\<close> runs on the instance built from them.
\<close>

definition recipient_form_clean :: "(string \<times> string) list \<Rightarrow> whatsapp_recipient option" where
  "recipient_form_clean post =
     (case (char_field_clean (Some 120) (map_of post ''recipient-name''),
            char_field_clean (Some 20) (map_of post ''recipient-phone_number'')) of
        (Some nm, Some ph) \<Rightarrow>
          (case normalize_phone_number ph ''55'' of
             Inl e \<Rightarrow> None
           | Inr normalized \<Rightarrow>
               (case recipient_clean \<lparr>name = nm, phone_number = normalized, original_input = []\<rparr> of
                  Inl e \<Rightarrow> None
                | Inr r \<Rightarrow> Some r))
      | _ \<Rightarrow> None)"

text \<open>
  The view: a POST deletes a recipient or saves a new one (under a fresh key) and
  redirects; an invalid form, like a GET, shows the page, for which the group list is
  fetched. A \<open>RequestException\<close> of the fetch is shown as an error; any other exception
  leaves the view. The page's context is the name of the configured group, whether the
  fetch failed, and the recipients.
\<close>

definition whatsapp_config_body ::
  "world \<Rightarrow> (string \<Rightarrow> nat option) \<Rightarrow> request \<Rightarrow> (nat \<times> whatsapp_recipient) list
     \<Rightarrow> (py_error + (json \<times> bool \<times> whatsapp_recipient list) view_response)
        \<times> (nat \<times> whatsapp_recipient) list" where
  "whatsapp_config_body w to_pk request table =
     (if \<not> is_ti (req_user request) then (Inl PermissionDenied, table)
      else
        let page =
              (\<lambda>table'.
                 case fst (list_wapi_groups (w_env w) (w_http_get w)) of
                   Inl e \<Rightarrow>
                     if is_request_exception e
                     then Inr (Page ''whatsapp_config.html''
                                 (JStr (w_group_jid w), True, map snd table'))
                     else Inl e
                 | Inr groups \<Rightarrow>
                     (case find (\<lambda>g. (case g of JDict d \<Rightarrow> dict_get d ''id'' | _ \<Rightarrow> JNull)
                                        = JStr (w_group_jid w)) groups of
                        None \<Rightarrow> Inr (Page ''whatsapp_config.html''
                                        (JStr (w_group_jid w), False, map snd table'))
                      | Some g \<Rightarrow>
                          Inr (Page ''whatsapp_config.html''
                                 (py_or (case g of JDict d \<Rightarrow> dict_get d ''name'' | _ \<Rightarrow> JNull)
                                    (JStr (w_group_jid w)), False, map snd table'))))
        in
        if req_method request = ''POST'' then
          if map_of (req_POST request) ''action'' = Some ''delete_recipient'' then
            (case get_object_or_404 to_pk table (map_of (req_POST request) ''recipient_id'') of
               Inl e \<Rightarrow> (Inl e, table)
             | Inr (k, r) \<Rightarrow>
                 (Inr (RedirectTo ''whatsapp_config''), filter (\<lambda>row. fst row \<noteq> k) table))
          else
            (case recipient_form_clean (req_POST request) of
               None \<Rightarrow> (page table, table)
             | Some r \<Rightarrow>
                 (case recipient_save (\<lambda>x. True) (map snd table) r of
                    Inl e \<Rightarrow> (page table, table)
                  | Inr rows \<Rightarrow>
                      (Inr (RedirectTo ''whatsapp_config''),
                       (Suc (fold max (map fst table) 0), hd rows) # table)))
        else (page table, table))"

definition whatsapp_config ::
  "world \<Rightarrow> (string \<Rightarrow> nat option) \<Rightarrow> visit \<Rightarrow> (nat \<times> whatsapp_recipient) list
     \<Rightarrow> (py_error + (json \<times> bool \<times> whatsapp_recipient list) view_response)
        \<times> (nat \<times> whatsapp_recipient) list" where
  "whatsapp_config w to_pk = login_required (whatsapp_config_body w to_pk)"

text \<open>The ticket a status update leaves: lines 133 to 141 and the
  \<open>working_users.add\<close> of line 161.\<close>

definition updated_ticket :: "int \<Rightarrow> ticket \<Rightarrow> string \<Rightarrow> user option \<Rightarrow> string option \<Rightarrow> ticket" where
  "updated_ticket now t new_status assigned resolution_text =
     (let t' = set_status now t new_status assigned resolution_text
      in case assigned of None \<Rightarrow> t' | Some u \<Rightarrow> t'\<lparr>working_users := m2m_add u (working_users t')\<rparr>)"

text \<open>A requester, an IT user, a new ticket and a world in which the WhatsApp service knows the
  configured group and accepts messages: the inputs of the worked examples.\<close>

definition example_user :: user where
  "example_user = \<lparr>uid = 1, username = ''ana'', full_name = ''Ana Lima'',
      email = ''ana@example.com'', is_staff = False, is_superuser = False,
      user_groups = []\<rparr>"

definition example_ti :: user where
  "example_ti = \<lparr>uid = 2, username = ''joao'', full_name = [],
      email = ''joao@example.com'', is_staff = False, is_superuser = False,
      user_groups = [''TI'']\<rparr>"

definition example_ticket :: ticket where
  "example_ticket = \<lparr>pk = 7, title = ''Impressora nao responde'',
      description = ''A impressora do financeiro parou.'', created_by = example_user,
      assigned_to = None, ticket_type = ''incident'', status = ''new'', urgency = ''normal'',
      created_at = 900, resolution = None, resolved_at = None, working_users = []\<rparr>"

definition example_world :: world where
  "example_world = \<lparr>w_env = default_environ, w_group_jid = ''120363421981424263@g.us'',
      w_channel_layer = True,
      w_http_get = (\<lambda>u. Inr (Response 200
         (Some (JList [JDict [(''id'', JStr ''120363421981424263@g.us'')]])))),
      w_http_post = (\<lambda>d. Inr (Response 200 (Some (JDict [(''status'', JStr ''sent'')])))),
      w_time = 100, w_now = 1000, w_mail_error = None,
      w_ticket_url = (\<lambda>n. ''/chamado/'')\<rparr>"

definition example_state :: state where
  "example_state = \<lparr>st_ticket = example_ticket, st_events = [], st_cache = empty_cache,
      st_out = []\<rparr>"

text \<open>The declared values of \<open>TicketStatus\<close>.\<close>

definition valid_status :: "string \<Rightarrow> bool" where
  "valid_status x = (x \<in> set (map fst TicketStatus_choices))"

text \<open>
  A sequence of POST requests to a ticket's page, each handled by
  \<open>_handle_ticket_action\<close> in the world of its moment with the requester's TI flag;
  an exception ends a request, not the sequence.
\<close>

fun run_actions :: "state \<Rightarrow> (world \<times> request \<times> bool) list \<Rightarrow> state" where
  "run_actions s [] = s"
| "run_actions s (step # steps) =
     run_actions (snd (handle_ticket_action (fst step) s (fst (snd step)) (snd (snd step)))) steps"

text \<open>\<open>_notify_whatsapp\<close> returns when \<open>send_whatsapp_message\<close> returned or raised a
  \<open>RequestException\<close>.\<close>

definition whatsapp_returns :: "py_error + json \<Rightarrow> bool" where
  "whatsapp_returns rw = (case rw of Inl e \<Rightarrow> is_request_exception e | Inr v \<Rightarrow> True)"

text \<open>The event row a status update records.\<close>

definition status_event :: "ticket \<Rightarrow> string \<Rightarrow> user option \<Rightarrow> ticket_event" where
  "status_event t new_status performed_by =
     \<lparr>ev_ticket = pk t, ev_type = EventType_STATUS, ev_status = Some new_status,
      ev_performed_by = performed_by\<rparr>"

definition example_request :: request where
  "example_request = \<lparr>req_user = example_ti, req_method = ''POST'',
      req_POST = [(''action'', ''in_progress'')], req_GET = []\<rparr>"

definition example_steps :: "(world \<times> request \<times> bool) list" where
  "example_steps =
     [(example_world, example_request, True),
      (example_world, example_request\<lparr>req_POST := [(''action'', ''awaiting''),
          (''pause_reason'', ''aguardando fornecedor'')]\<rparr>, True),
      (example_world, example_request\<lparr>req_POST := [(''action'', ''resolve''),
          (''resolution'', ''Cabo trocado'')]\<rparr>, True),
      (example_world, example_request\<lparr>req_user := example_user,
          req_POST := [(''action'', ''reopen'')]\<rparr>, False)]"

definition example_create :: request where
  "example_create = \<lparr>req_user = example_user, req_method = ''POST'',
      req_POST = [(''title'', ''Impressora nao responde''),
        (''description'', ''A impressora do financeiro parou.''),
        (''urgency'', ''high''), (''ticket_type'', ''incident'')], req_GET = []\<rparr>"

text \<open>The declared keys of a list of choices, and the number of tickets of a query that
  have a given value in a field.\<close>

definition declared :: "(string \<times> string) list \<Rightarrow> string set" where
  "declared choices = fst ` set choices"

definition count_of :: "(ticket \<Rightarrow> string) \<Rightarrow> string \<Rightarrow> ticket list \<Rightarrow> int" where
  "count_of field k queryset = int (length (filter (\<lambda>t. field t = k) queryset))"

text \<open>A ticket table of one new and two resolved tickets, and a GET request of a visitor.\<close>

definition example_table :: "ticket list" where
  "example_table =
     [example_ticket,
      example_ticket\<lparr>pk := 8, status := ''resolved'', urgency := ''high''\<rparr>,
      example_ticket\<lparr>pk := 9, status := ''resolved'', ticket_type := ''request''\<rparr>]"

definition example_visit :: "user option \<Rightarrow> visit" where
  "example_visit u = \<lparr>v_user = u, v_method = ''GET'', v_POST = [], v_GET = []\<rparr>"

section \<open>Properties of normalize_phone_number\<close>





section \<open>Properties of _normalize_groups_payload\<close>



lemma py_iter_error: "py_iter v = Inl e \<Longrightarrow> e = TypeError"
  by (cases v) auto









section \<open>Properties of list_wapi_groups\<close>

lemma fetch_loop_stop:
  "list_all (skipped http) pre \<Longrightarrow> http u = Inr r \<Longrightarrow> status_code r \<noteq> 404 \<Longrightarrow>
   fetch_loop http (pre @ u # post) response tried = (Inr (Some r), tried @ pre @ [u])"
  by (induction pre arbitrary: response tried) (auto simp: skipped_def split: sum.splits)

lemma fetch_loop_all_skipped:
  "list_all (skipped http) urls \<Longrightarrow>
   \<exists>resp. fetch_loop http urls response tried = (Inr resp, tried @ urls)
      \<and> (resp = response \<or> (\<exists>r. resp = Some r \<and> status_code r = 404))"
proof (induction urls arbitrary: response tried)
  case Nil
  then show ?case by simp
next
  case (Cons url urls)
  then have sk: "skipped http url" and rest: "list_all (skipped http) urls" by simp_all
  show ?case
  proof (cases "http url")
    case (Inl e)
    with sk have "is_request_exception e" by (simp add: skipped_def)
    with Inl Cons.IH [OF rest, of response "tried @ [url]"] show ?thesis by auto
  next
    case (Inr r)
    with sk have "status_code r = 404" by (simp add: skipped_def)
    with Inr Cons.IH [OF rest, of "Some r" "tried @ [url]"] show ?thesis by auto
  qed
qed

lemma groups_of_response_404:
  "response = None \<or> (\<exists>r. response = Some r \<and> status_code r = 404) \<Longrightarrow>
   groups_of_response response = Inr []"
  by (auto simp: groups_of_response_def response_falsy_def raise_for_status_def)

lemma fetch_loop_tried:
  "\<exists>k. snd (fetch_loop http urls response tried) = tried @ take k urls
     \<and> (urls \<noteq> [] \<longrightarrow> 0 < k)"
proof (induction urls arbitrary: response tried)
  case Nil
  then show ?case by simp
next
  case (Cons url urls)
  have stop: "\<exists>k. tried @ [url] = tried @ take k (url # urls) \<and> 0 < k"
    by (rule exI [of _ "Suc 0"]) simp
  have go: "\<exists>k. snd (fetch_loop http urls resp (tried @ [url])) = tried @ take k (url # urls)
      \<and> 0 < k" for resp
  proof -
    from Cons.IH [of resp "tried @ [url]"] obtain k where
      "snd (fetch_loop http urls resp (tried @ [url])) = (tried @ [url]) @ take k urls"
      by blast
    then have "snd (fetch_loop http urls resp (tried @ [url])) = tried @ take (Suc k) (url # urls)
        \<and> 0 < Suc k"
      by simp
    then show ?thesis by (rule exI)
  qed
  show ?case
  proof (cases "http url")
    case (Inl e)
    with stop go [of response] show ?thesis by (cases "is_request_exception e") simp_all
  next
    case (Inr r)
    with stop go [of "Some r"] show ?thesis by (cases "status_code r = 404") simp_all
  qed
qed

lemma list_wapi_groups_tried:
  "\<exists>k. 0 < k \<and> snd (list_wapi_groups env http) = take k (endpoints env)"
proof -
  have ne: "endpoints env \<noteq> []" by (simp add: endpoints_def)
  from fetch_loop_tried [of http "endpoints env" None "[]"] ne obtain k where
    k: "snd (fetch_loop http (endpoints env) None []) = take k (endpoints env)" "0 < k"
    by auto
  have "snd (list_wapi_groups env http) = snd (fetch_loop http (endpoints env) None [])"
    by (simp add: list_wapi_groups_def split: prod.splits sum.splits)
  with k show ?thesis by auto
qed

lemma list_wapi_groups_stop:
  assumes "endpoints env = pre @ u # post" "list_all (skipped http) pre"
    "http u = Inr r" "status_code r \<noteq> 404"
  shows "list_wapi_groups env http = (groups_of_response (Some r), pre @ [u])"
  using fetch_loop_stop [OF assms(2-4), of post None "[]"] assms(1)
  by (simp add: list_wapi_groups_def)

lemma list_wapi_groups_none:
  assumes "list_all (skipped http) (endpoints env)"
  shows "list_wapi_groups env http = (Inr [], endpoints env)"
proof -
  from fetch_loop_all_skipped [OF assms, of None "[]"] obtain resp where
    f: "fetch_loop http (endpoints env) None [] = (Inr resp, endpoints env)"
    and r: "resp = None \<or> (\<exists>r. resp = Some r \<and> status_code r = 404)" by auto
  from groups_of_response_404 [OF r] f show ?thesis
    by (simp add: list_wapi_groups_def)
qed

lemma list_wapi_groups_last_404:
  assumes "fetch_loop http (endpoints env) None [] = (Inr resp, tried)"
    "resp = None \<or> (\<exists>r. resp = Some r \<and> status_code r = 404)"
  shows "list_wapi_groups env http = (Inr [], tried)"
  using groups_of_response_404 [OF assms(2)] assms(1) by (simp add: list_wapi_groups_def)

text \<open>
  C1. The endpoints are, in this order, get-all-groups, api/instance/groups, groups and
  the legacy whatsapp/group/list; the URLs requested by a call are a non-empty initial
  part of that list. When the endpoints before one are skipped (a
  \<open>RequestException\<close> or a 404) and that one answers with another status, the call
  stops there: it has requested exactly the endpoints up to it, and its result is what
  lines 103 to 110 make of that response. When every endpoint is skipped, all four are
  requested and the result is the empty list; and whenever the loop ends with no
  response at all or with a 404 as the last response obtained, the result is the empty
  list.
\<close>

theorem list_wapi_groups_spec:
  "endpoints env = [WAPI_GET_ALL_GROUPS_URL env, WAPI_API_GROUPS_URL env, WAPI_GROUPS_URL env,
      WAPI_LEGACY_GROUPS_URL env]
   \<and> (\<exists>k. 0 < k \<and> snd (list_wapi_groups env http) = take k (endpoints env))
   \<and> (\<forall>pre u post r.
        endpoints env = pre @ u # post \<and> list_all (skipped http) pre
          \<and> http u = Inr r \<and> status_code r \<noteq> 404
        \<longrightarrow> list_wapi_groups env http = (groups_of_response (Some r), pre @ [u]))
   \<and> (list_all (skipped http) (endpoints env)
        \<longrightarrow> list_wapi_groups env http = (Inr [], endpoints env))
   \<and> (\<forall>resp tried.
        fetch_loop http (endpoints env) None [] = (Inr resp, tried)
          \<and> (resp = None \<or> (\<exists>r. resp = Some r \<and> status_code r = 404))
        \<longrightarrow> list_wapi_groups env http = (Inr [], tried))"
proof -
  have order: "endpoints env = [WAPI_GET_ALL_GROUPS_URL env, WAPI_API_GROUPS_URL env,
      WAPI_GROUPS_URL env, WAPI_LEGACY_GROUPS_URL env]"
    by (simp add: endpoints_def)
  from order list_wapi_groups_tried [of env http] list_wapi_groups_stop [of env _ _ _ http]
    list_wapi_groups_none [of http env] list_wapi_groups_last_404 [of http env]
  show ?thesis by blast
qed

theorem list_wapi_groups_spec_witness:
  "list_wapi_groups default_environ
     (\<lambda>u. if u = WAPI_GET_ALL_GROUPS_URL default_environ then Inl RequestException
          else if u = WAPI_API_GROUPS_URL default_environ then Inr (Response 404 None)
          else Inr (Response 200 (Some (JList [JDict [(''id'', JStr ''1@g.us'')]]))))
   = (Inr [JDict [(''id'', JStr ''1@g.us''), (''name'', JStr ''Sem nome''),
                  (''participantsCount'', JNull)]],
      [''https://api.w-api.app/v1/group/get-all-groups?instanceId=LITE-F75JN4-FWW3NA'',
       ''https://api.w-api.app/v1/api/LITE-F75JN4-FWW3NA/groups'',
       ''https://api.w-api.app/v1/groups?instanceId=LITE-F75JN4-FWW3NA''])
   \<and> list_wapi_groups default_environ (\<lambda>u. Inr (Response 404 None))
       = (Inr [], endpoints default_environ)"
proof -
  let ?http = "\<lambda>u. if u = WAPI_GET_ALL_GROUPS_URL default_environ then Inl RequestException
          else if u = WAPI_API_GROUPS_URL default_environ then Inr (Response 404 None)
          else Inr (Response 200 (Some (JList [JDict [(''id'', JStr ''1@g.us'')]])))"
  let ?r = "Response 200 (Some (JList [JDict [(''id'', JStr ''1@g.us'')]]))"
  have urls:
    "WAPI_GET_ALL_GROUPS_URL default_environ
       = ''https://api.w-api.app/v1/group/get-all-groups?instanceId=LITE-F75JN4-FWW3NA''"
    "WAPI_API_GROUPS_URL default_environ
       = ''https://api.w-api.app/v1/api/LITE-F75JN4-FWW3NA/groups''"
    "WAPI_GROUPS_URL default_environ
       = ''https://api.w-api.app/v1/groups?instanceId=LITE-F75JN4-FWW3NA''"
    by (simp_all add: WAPI_GET_ALL_GROUPS_URL_def WAPI_API_GROUPS_URL_def WAPI_GROUPS_URL_def
        WAPI_BASE_def WAPI_INSTANCE_def getenv_def default_environ_def)
  have split: "endpoints default_environ
      = [WAPI_GET_ALL_GROUPS_URL default_environ, WAPI_API_GROUPS_URL default_environ]
        @ WAPI_GROUPS_URL default_environ # [WAPI_LEGACY_GROUPS_URL default_environ]"
    by (simp add: endpoints_def)
  have pre: "list_all (skipped ?http)
      [WAPI_GET_ALL_GROUPS_URL default_environ, WAPI_API_GROUPS_URL default_environ]"
    by (simp add: skipped_def is_request_exception_def urls)
  have u: "?http (WAPI_GROUPS_URL default_environ) = Inr ?r"
    by (simp add: urls)
  have st: "status_code ?r \<noteq> 404" by simp
  have g: "groups_of_response (Some ?r)
      = Inr [JDict [(''id'', JStr ''1@g.us''), (''name'', JStr ''Sem nome''),
                  (''participantsCount'', JNull)]]"
    by (simp add: groups_of_response_def response_falsy_def raise_for_status_def
        response_json_def normalize_groups_payload_def select_groups_def normalize_entry_def
        py_or_def dict_get_def)
  have a: "list_wapi_groups default_environ ?http
      = (groups_of_response (Some ?r),
         [WAPI_GET_ALL_GROUPS_URL default_environ, WAPI_API_GROUPS_URL default_environ]
           @ [WAPI_GROUPS_URL default_environ])"
    using list_wapi_groups_spec [of default_environ ?http] split pre u st by blast
  have sk: "list_all (skipped (\<lambda>u. Inr (Response 404 None))) (endpoints default_environ)"
    by (simp add: skipped_def endpoints_def)
  have b: "list_wapi_groups default_environ (\<lambda>u. Inr (Response 404 None))
       = (Inr [], endpoints default_environ)"
    using list_wapi_groups_spec [of default_environ "\<lambda>u. Inr (Response 404 None)"] sk
    by blast
  from a b g urls show ?thesis by simp
qed

section \<open>Properties of ensure_group_exists\<close>

lemma list_wapi_groups_nonempty: "snd (list_wapi_groups env http) \<noteq> []"
proof -
  from list_wapi_groups_tried [of env http] obtain k where
    "0 < k" "snd (list_wapi_groups env http) = take k (endpoints env)" by auto
  then show ?thesis by (simp add: endpoints_def)
qed

lemma ensure_hit:
  "\<not> needs_refetch now c \<Longrightarrow>
   \<exists>groups. cache_groups c = Some groups \<and> groups \<noteq> [] \<and>
      ensure_group_exists env http now c group_id = (group_check groups group_id, c, [])"
  by (auto simp: ensure_group_exists_def needs_refetch_def split: option.splits)

lemma ensure_refetch_ok:
  "needs_refetch now c \<Longrightarrow> list_wapi_groups env http = (Inr groups, tried) \<Longrightarrow>
   ensure_group_exists env http now c group_id =
     (group_check groups group_id, c\<lparr>cache_groups := Some groups, cache_ts := Some now\<rparr>,
      tried)"
  by (simp add: ensure_group_exists_def)

lemma ensure_refetch_err:
  "needs_refetch now c \<Longrightarrow> list_wapi_groups env http = (Inl e, tried) \<Longrightarrow>
   ensure_group_exists env http now c group_id =
     (Inl (if is_request_exception e then ValueError else e), c, tried)"
  by (simp add: ensure_group_exists_def)

lemma needs_refetch_iff:
  "needs_refetch now c =
     (cache_groups c = None \<or> cache_groups c = Some [] \<or> cache_ts c = None
      \<or> cache_ts c = Some 0 \<or> (\<exists>cached. cache_ts c = Some cached \<and> now - cached > 30))"
  by (auto simp: needs_refetch_def split: option.splits)

lemma ensure_two_calls:
  assumes "ensure_group_exists env http0 t0 c0 g0 = (r0, c1, q0)" "q0 \<noteq> []"
     "list_wapi_groups env http0 = (Inr groups, tried)" "groups \<noteq> []" "t0 \<noteq> 0"
     "t1 - t0 \<le> 30"
  shows "ensure_group_exists env http1 t1 c1 g1 = (group_check groups g1, c1, [])"
proof -
  have nr: "needs_refetch t0 c0"
  proof (rule ccontr)
    assume "\<not> needs_refetch t0 c0"
    from ensure_hit [OF this, of env http0 g0] assms(1,2) show False by auto
  qed
  from ensure_refetch_ok [OF nr assms(3), of g0] assms(1)
  have c1: "c1 = c0\<lparr>cache_groups := Some groups, cache_ts := Some t0\<rparr>" by simp
  with assms(4-6) have "\<not> needs_refetch t1 c1" by (simp add: needs_refetch_def)
  from ensure_hit [OF this, of env http1 g1] c1 show ?thesis by auto
qed

text \<open>
  C2, as the code has it. The cached list answers only when it is not empty: a call
  refetches exactly when the cache holds no list or an empty one, no timestamp or a zero
  one, or a timestamp more than 30 seconds old. So of two calls, when the first filled the
  cache at \<open>t0\<close> with a non-empty list and the second comes at most 30 seconds later,
  the second requests nothing, leaves the cache as it is and checks the group against the
  cached list. A call that refetches requests at least one URL; when the fetch returns a
  list, that list and the call's time replace the cache; when the fetch raises, the cache
  stays and a \<open>RequestException\<close> becomes a \<open>ValueError\<close>.
\<close>

theorem ensure_group_exists_spec:
  "(needs_refetch now c =
      (cache_groups c = None \<or> cache_groups c = Some [] \<or> cache_ts c = None
       \<or> cache_ts c = Some 0 \<or> (\<exists>cached. cache_ts c = Some cached \<and> now - cached > 30)))
   \<and> (\<forall>r0 c1 q0 groups tried.
        ensure_group_exists env http0 t0 c0 g0 = (r0, c1, q0) \<and> q0 \<noteq> []
          \<and> list_wapi_groups env http0 = (Inr groups, tried) \<and> groups \<noteq> [] \<and> t0 \<noteq> 0
          \<and> t1 - t0 \<le> 30
        \<longrightarrow> ensure_group_exists env http1 t1 c1 g1 = (group_check groups g1, c1, []))
   \<and> (\<not> needs_refetch now c \<longrightarrow>
        (\<exists>groups. cache_groups c = Some groups \<and> groups \<noteq> [] \<and>
           ensure_group_exists env http now c group_id = (group_check groups group_id, c, [])))
   \<and> (\<forall>groups tried.
        needs_refetch now c \<and> list_wapi_groups env http = (Inr groups, tried)
        \<longrightarrow> tried \<noteq> [] \<and> ensure_group_exists env http now c group_id =
             (group_check groups group_id,
              c\<lparr>cache_groups := Some groups, cache_ts := Some now\<rparr>, tried))
   \<and> (\<forall>e tried.
        needs_refetch now c \<and> list_wapi_groups env http = (Inl e, tried)
        \<longrightarrow> tried \<noteq> [] \<and> ensure_group_exists env http now c group_id =
             (Inl (if is_request_exception e then ValueError else e), c, tried))"
proof (intro conjI allI impI)
  show "needs_refetch now c =
      (cache_groups c = None \<or> cache_groups c = Some [] \<or> cache_ts c = None
       \<or> cache_ts c = Some 0 \<or> (\<exists>cached. cache_ts c = Some cached \<and> now - cached > 30))"
    by (rule needs_refetch_iff)
next
  fix r0 c1 q0 groups tried
  assume "ensure_group_exists env http0 t0 c0 g0 = (r0, c1, q0) \<and> q0 \<noteq> []
          \<and> list_wapi_groups env http0 = (Inr groups, tried) \<and> groups \<noteq> [] \<and> t0 \<noteq> 0
          \<and> t1 - t0 \<le> 30"
  then show "ensure_group_exists env http1 t1 c1 g1 = (group_check groups g1, c1, [])"
    using ensure_two_calls [of env http0 t0 c0 g0 r0 c1 q0 groups tried t1 http1 g1] by simp
next
  assume "\<not> needs_refetch now c"
  then show "\<exists>groups. cache_groups c = Some groups \<and> groups \<noteq> [] \<and>
           ensure_group_exists env http now c group_id = (group_check groups group_id, c, [])"
    by (rule ensure_hit)
next
  fix groups tried
  assume "needs_refetch now c \<and> list_wapi_groups env http = (Inr groups, tried)"
  then show "tried \<noteq> []"
    using list_wapi_groups_nonempty [of env http] by auto
next
  fix groups tried
  assume "needs_refetch now c \<and> list_wapi_groups env http = (Inr groups, tried)"
  then show "ensure_group_exists env http now c group_id =
             (group_check groups group_id,
              c\<lparr>cache_groups := Some groups, cache_ts := Some now\<rparr>, tried)"
    using ensure_refetch_ok [of now c env http groups tried group_id] by simp
next
  fix e tried
  assume "needs_refetch now c \<and> list_wapi_groups env http = (Inl e, tried)"
  then show "tried \<noteq> []"
    using list_wapi_groups_nonempty [of env http] by auto
next
  fix e tried
  assume "needs_refetch now c \<and> list_wapi_groups env http = (Inl e, tried)"
  then show "ensure_group_exists env http now c group_id =
             (Inl (if is_request_exception e then ValueError else e), c, tried)"
    using ensure_refetch_err [of now c env http e tried group_id] by simp
qed

theorem ensure_group_exists_spec_witness:
  "ensure_group_exists default_environ
     (\<lambda>u. Inr (Response 200 (Some (JList [JDict [(''id'', JStr ''1@g.us'')]]))))
     100 empty_cache ''1@g.us''
   = (Inr (),
      \<lparr>cache_ts = Some 100,
       cache_groups = Some [JDict [(''id'', JStr ''1@g.us''), (''name'', JStr ''Sem nome''),
                                   (''participantsCount'', JNull)]]\<rparr>,
      [WAPI_GET_ALL_GROUPS_URL default_environ])
   \<and> ensure_group_exists default_environ (\<lambda>u. Inl RequestException) 130
      \<lparr>cache_ts = Some 100,
       cache_groups = Some [JDict [(''id'', JStr ''1@g.us''), (''name'', JStr ''Sem nome''),
                                   (''participantsCount'', JNull)]]\<rparr> ''2@g.us''
   = (Inl ValueError,
      \<lparr>cache_ts = Some 100,
       cache_groups = Some [JDict [(''id'', JStr ''1@g.us''), (''name'', JStr ''Sem nome''),
                                   (''participantsCount'', JNull)]]\<rparr>, [])
   \<and> needs_refetch 131
      \<lparr>cache_ts = Some 100,
       cache_groups = Some [JDict [(''id'', JStr ''1@g.us''), (''name'', JStr ''Sem nome''),
                                   (''participantsCount'', JNull)]]\<rparr>"
proof -
  let ?http0 = "\<lambda>u::string. Inr (Response 200 (Some (JList [JDict [(''id'', JStr ''1@g.us'')]])))
                  :: py_error + response"
  let ?g = "[JDict [(''id'', JStr ''1@g.us''), (''name'', JStr ''Sem nome''),
                                   (''participantsCount'', JNull)]]"
  let ?c1 = "\<lparr>cache_ts = Some 100, cache_groups = Some ?g\<rparr>"
  have l: "list_wapi_groups default_environ ?http0
      = (Inr ?g, [WAPI_GET_ALL_GROUPS_URL default_environ])"
    by (simp add: list_wapi_groups_def endpoints_def groups_of_response_def response_falsy_def
        raise_for_status_def response_json_def normalize_groups_payload_def select_groups_def
        normalize_entry_def py_or_def dict_get_def)
  have n: "needs_refetch 100 empty_cache"
    by (simp add: needs_refetch_def empty_cache_def)
  have chk: "group_check ?g ''1@g.us'' = Inr ()" "group_check ?g ''2@g.us'' = Inl ValueError"
    by (simp_all add: group_check_def)
  have a: "ensure_group_exists default_environ ?http0 100 empty_cache ''1@g.us''
      = (Inr (), ?c1, [WAPI_GET_ALL_GROUPS_URL default_environ])"
    using ensure_group_exists_spec [of 100 empty_cache default_environ _ _ _ _ _ _ _ ?http0
        "''1@g.us''"] n l chk
    by (simp add: empty_cache_def)
  have b: "ensure_group_exists default_environ (\<lambda>u. Inl RequestException) 130 ?c1 ''2@g.us''
      = (group_check ?g ''2@g.us'', ?c1, [])"
    using ensure_group_exists_spec [of _ _ default_environ ?http0 100 empty_cache "''1@g.us''"
        130 "\<lambda>u. Inl RequestException" "''2@g.us''"] a l
    by simp
  have c: "needs_refetch 131 ?c1"
    using ensure_group_exists_spec [of 131 ?c1] by simp
  from a b c chk show ?thesis by simp
qed

text \<open>
  A first call at time 100 finds no group list at any endpoint and fills the cache with
  the empty list. A second call ten seconds later requests the first endpoint again and
  replaces the cache: the empty list is not answered from the cache.
\<close>

theorem ensure_group_exists_empty_list_refetched:
  "ensure_group_exists default_environ (\<lambda>u. Inr (Response 404 None)) 100 empty_cache ''1@g.us''
     = (Inl ValueError, \<lparr>cache_ts = Some 100, cache_groups = Some []\<rparr>,
        endpoints default_environ)
   \<and> ensure_group_exists default_environ
       (\<lambda>u. Inr (Response 200 (Some (JList [JDict [(''id'', JStr ''1@g.us'')]]))))
       110 \<lparr>cache_ts = Some 100, cache_groups = Some []\<rparr> ''1@g.us''
     = (Inr (),
        \<lparr>cache_ts = Some 110,
         cache_groups = Some [JDict [(''id'', JStr ''1@g.us''), (''name'', JStr ''Sem nome''),
                                     (''participantsCount'', JNull)]]\<rparr>,
        [WAPI_GET_ALL_GROUPS_URL default_environ])"
  by (simp add: ensure_group_exists_def needs_refetch_def empty_cache_def list_wapi_groups_def
      endpoints_def groups_of_response_def response_falsy_def raise_for_status_def
      response_json_def normalize_groups_payload_def select_groups_def normalize_entry_def
      py_or_def dict_get_def group_check_def)

section \<open>Properties of _update_ticket_status and _handle_ticket_action\<close>

lemma notify_whatsapp_frame:
  "st_ticket (snd (notify_whatsapp w s)) = st_ticket s"
  "st_events (snd (notify_whatsapp w s)) = st_events s"
  by (auto simp: notify_whatsapp_def Let_def split: prod.splits sum.splits)

lemma notify_ticket_email_frame:
  "st_ticket (snd (notify_ticket_email w s)) = st_ticket s"
  "st_events (snd (notify_ticket_email w s)) = st_events s"
  "st_cache (snd (notify_ticket_email w s)) = st_cache s"
  by (auto simp: notify_ticket_email_def Let_def split: option.splits)

lemma update_ticket_status_ticket:
  "st_ticket (snd (update_ticket_status w s new_status assigned resolution_text extra_payload performed_by))
     = updated_ticket (w_now w) (st_ticket s) new_status assigned resolution_text"
proof -
  have a: "st_ticket (snd (case notify_whatsapp w s1 of
           (Inl e, s2) \<Rightarrow> (Inl e, s2)
         | (Inr u, s2) \<Rightarrow> notify_ticket_email w s2)) = st_ticket s1" for s1
    using notify_whatsapp_frame(1) [of w s1] notify_ticket_email_frame(1) [of w]
    by (auto split: prod.splits sum.splits)
  show ?thesis
    unfolding update_ticket_status_def Let_def a
    by (simp add: updated_ticket_def Let_def)
qed

lemma update_ticket_status_events:
  "st_events (snd (update_ticket_status w s new_status assigned resolution_text extra_payload performed_by))
     = \<lparr>ev_ticket = pk (st_ticket s), ev_type = EventType_STATUS, ev_status = Some new_status,
                ev_performed_by = performed_by\<rparr> # st_events s"
proof -
  have a: "st_events (snd (case notify_whatsapp w s1 of
           (Inl e, s2) \<Rightarrow> (Inl e, s2)
         | (Inr u, s2) \<Rightarrow> notify_ticket_email w s2)) = st_events s1" for s1
    using notify_whatsapp_frame(2) [of w s1] notify_ticket_email_frame(2) [of w]
    by (auto split: prod.splits sum.splits)
  have p: "pk (set_status now t ns a rt) = pk t" for now t ns a rt
    by (simp add: set_status_def Let_def split: option.splits)
  show ?thesis
    unfolding update_ticket_status_def Let_def a
    by (simp add: p)
qed

lemma update_status_dest:
  "update_ticket_status w s ns a rt ep pb = (r, s') \<Longrightarrow>
     st_ticket s' = updated_ticket (w_now w) (st_ticket s) ns a rt"
  using update_ticket_status_ticket [of w s ns a rt ep pb] by simp

lemma updated_ticket_fields:
  "status (updated_ticket now t ns a rt) = ns"
  "pk (updated_ticket now t ns a rt) = pk t"
  "created_by (updated_ticket now t ns a rt) = created_by t"
  "assigned_to (updated_ticket now t ns a rt) = (case a of None \<Rightarrow> assigned_to t | Some u \<Rightarrow> Some u)"
  "working_users (updated_ticket now t ns a rt)
     = (case a of None \<Rightarrow> working_users t | Some u \<Rightarrow> m2m_add u (working_users t))"
  "resolved_at (updated_ticket now t ns a rt)
     = (if ns = TicketStatus_RESOLVED then Some now else None)"
  "resolution (updated_ticket now t ns a rt)
     = (if ns = TicketStatus_RESOLVED
        then (case rt of None \<Rightarrow> resolution t | Some x \<Rightarrow> if x \<noteq> [] then Some x else resolution t)
        else resolution t)"
  by (simp_all add: updated_ticket_def set_status_def Let_def split: option.splits)

text \<open>
  C10. After a status update the ticket has the status given, and its \<open>resolved_at\<close>
  is set exactly when that status is \<open>resolved\<close>: an update to \<open>resolved\<close> stamps
  it with the current time and keeps the earlier resolution text unless a new, non-empty
  one is given; an update to any other status clears it and leaves the resolution text.
  This holds whatever the notifications do afterwards.
\<close>

theorem update_ticket_status_resolved_at:
  "update_ticket_status w s new_status assigned resolution_text extra_payload performed_by
      = (r, s') \<longrightarrow>
   status (st_ticket s') = new_status
   \<and> ((resolved_at (st_ticket s') \<noteq> None) = (status (st_ticket s') = TicketStatus_RESOLVED))
   \<and> (new_status = TicketStatus_RESOLVED \<longrightarrow>
        resolved_at (st_ticket s') = Some (w_now w)
        \<and> resolution (st_ticket s') =
            (case resolution_text of
               None \<Rightarrow> resolution (st_ticket s)
             | Some x \<Rightarrow> if x \<noteq> [] then Some x else resolution (st_ticket s)))
   \<and> (new_status \<noteq> TicketStatus_RESOLVED \<longrightarrow>
        resolved_at (st_ticket s') = None \<and> resolution (st_ticket s') = resolution (st_ticket s))"
proof
  assume "update_ticket_status w s new_status assigned resolution_text extra_payload performed_by
      = (r, s')"
  from update_status_dest [OF this]
  show "status (st_ticket s') = new_status
   \<and> ((resolved_at (st_ticket s') \<noteq> None) = (status (st_ticket s') = TicketStatus_RESOLVED))
   \<and> (new_status = TicketStatus_RESOLVED \<longrightarrow>
        resolved_at (st_ticket s') = Some (w_now w)
        \<and> resolution (st_ticket s') =
            (case resolution_text of
               None \<Rightarrow> resolution (st_ticket s)
             | Some x \<Rightarrow> if x \<noteq> [] then Some x else resolution (st_ticket s)))
   \<and> (new_status \<noteq> TicketStatus_RESOLVED \<longrightarrow>
        resolved_at (st_ticket s') = None \<and> resolution (st_ticket s') = resolution (st_ticket s))"
    by (simp add: updated_ticket_fields)
qed

lemma m2m_add_member: "uid u \<in> set (map uid (m2m_add u us))"
  by (simp add: m2m_add_def)

lemma m2m_add_distinct: "distinct (map uid us) \<Longrightarrow> distinct (map uid (m2m_add u us))"
  by (simp add: m2m_add_def)

text \<open>
  C6, as the code has it. \<open>working_users\<close> is a relation of its own beside the
  \<open>assigned_to\<close> field, and holds a user at most once. A status update that is given
  an assigned user makes that user the owner and also adds the same user to
  \<open>working_users\<close>; an update without one changes neither. \<open>_add_working_user\<close>
  adds to \<open>working_users\<close> of a ticket that is not resolved and never changes the owner.
\<close>

theorem update_ticket_status_working_users:
  "update_ticket_status w s new_status assigned resolution_text extra_payload performed_by
      = (r, s') \<longrightarrow>
   assigned_to (st_ticket s') =
      (case assigned of None \<Rightarrow> assigned_to (st_ticket s) | Some u \<Rightarrow> Some u)
   \<and> working_users (st_ticket s') =
      (case assigned of
         None \<Rightarrow> working_users (st_ticket s)
       | Some u \<Rightarrow> m2m_add u (working_users (st_ticket s)))
   \<and> (\<forall>u. assigned = Some u \<longrightarrow> uid u \<in> set (map uid (working_users (st_ticket s'))))
   \<and> (distinct (map uid (working_users (st_ticket s)))
        \<longrightarrow> distinct (map uid (working_users (st_ticket s'))))
   \<and> assigned_to (st_ticket (add_working_user s v)) = assigned_to (st_ticket s)
   \<and> working_users (st_ticket (add_working_user s v)) =
      (if status (st_ticket s) = TicketStatus_RESOLVED then working_users (st_ticket s)
       else m2m_add v (working_users (st_ticket s)))"
proof
  assume "update_ticket_status w s new_status assigned resolution_text extra_payload performed_by
      = (r, s')"
  from update_status_dest [OF this]
  have t: "st_ticket s'
      = updated_ticket (w_now w) (st_ticket s) new_status assigned resolution_text" .
  have a: "assigned_to (st_ticket (add_working_user s v)) = assigned_to (st_ticket s)"
    and b: "working_users (st_ticket (add_working_user s v)) =
      (if status (st_ticket s) = TicketStatus_RESOLVED then working_users (st_ticket s)
       else m2m_add v (working_users (st_ticket s)))"
    by (simp_all add: add_working_user_def)
  from t a b show "assigned_to (st_ticket s') =
      (case assigned of None \<Rightarrow> assigned_to (st_ticket s) | Some u \<Rightarrow> Some u)
   \<and> working_users (st_ticket s') =
      (case assigned of
         None \<Rightarrow> working_users (st_ticket s)
       | Some u \<Rightarrow> m2m_add u (working_users (st_ticket s)))
   \<and> (\<forall>u. assigned = Some u \<longrightarrow> uid u \<in> set (map uid (working_users (st_ticket s'))))
   \<and> (distinct (map uid (working_users (st_ticket s)))
        \<longrightarrow> distinct (map uid (working_users (st_ticket s'))))
   \<and> assigned_to (st_ticket (add_working_user s v)) = assigned_to (st_ticket s)
   \<and> working_users (st_ticket (add_working_user s v)) =
      (if status (st_ticket s) = TicketStatus_RESOLVED then working_users (st_ticket s)
       else m2m_add v (working_users (st_ticket s)))"
    by (auto simp: updated_ticket_fields m2m_add_member m2m_add_distinct split: option.splits
        simp del: set_map distinct_map)
qed

lemma handle_ticket_action_status:
  "status (st_ticket (snd (handle_ticket_action w s request is_ti_user)))
     \<in> {status (st_ticket s), TicketStatus_IN_PROGRESS, TicketStatus_AWAITING,
         TicketStatus_RESOLVED}"
proof -
  have u: "status (st_ticket (snd (update_ticket_status w s ns a rt ep pb))) = ns"
    for ns a rt ep pb
    by (simp add: update_ticket_status_ticket updated_ticket_fields)
  have tr: "snd (then_respond x resp) = snd x" for x resp
    by (auto simp: then_respond_def split: prod.splits sum.splits)
  have aw: "status (st_ticket (add_working_user s1 v)) = status (st_ticket s1)" for s1 v
    by (simp add: add_working_user_def)
  have jw: "status (st_ticket (snd (case x of
                    (Inl e, s1) \<Rightarrow> (Inl e, s1)
                  | (Inr u, s1) \<Rightarrow>
                      (g s1, (add_working_user s1 v)\<lparr>st_out := h s1\<rparr>))))
      = status (st_ticket (snd x))"
    for x :: "(py_error + unit) \<times> state" and v
      and g :: "state \<Rightarrow> py_error + http_response option" and h
    by (auto simp: aw split: prod.splits sum.splits)
  show ?thesis
    unfolding handle_ticket_action_def Let_def
    by (auto simp: tr u jw aw split: option.splits)
qed

lemma valid_status_iff:
  "valid_status x = (x = ''new'' \<or> x = ''in_progress'' \<or> x = ''awaiting'' \<or> x = ''resolved'')"
  by (auto simp: valid_status_def TicketStatus_choices_def TicketStatus_NEW_def
      TicketStatus_IN_PROGRESS_def TicketStatus_AWAITING_def TicketStatus_RESOLVED_def)

lemma handle_ticket_action_valid:
  "valid_status (status (st_ticket s)) \<Longrightarrow>
   valid_status (status (st_ticket (snd (handle_ticket_action w s request is_ti_user))))"
  using handle_ticket_action_status [of w s request is_ti_user]
  by (auto simp: valid_status_iff TicketStatus_IN_PROGRESS_def TicketStatus_AWAITING_def
      TicketStatus_RESOLVED_def)

lemma run_actions_valid:
  "valid_status (status (st_ticket s)) \<Longrightarrow> valid_status (status (st_ticket (run_actions s steps)))"
  by (induction steps arbitrary: s) (simp_all add: handle_ticket_action_valid)

lemma notify_whatsapp_ticket:
  "notify_whatsapp w s1 = (x, s2) \<Longrightarrow> st_ticket s2 = st_ticket s1"
  using notify_whatsapp_frame(1) [of w s1] by simp

lemma create_ticket_status:
  assumes "create_ticket w request new_pk c = (r, Some s)"
  shows "status (st_ticket s) = TicketStatus_NEW"
  using assms unfolding create_ticket_def Let_def
  by (auto split: option.splits prod.splits sum.splits dest!: notify_whatsapp_ticket)

text \<open>
  C7. The declared statuses are \<open>new\<close>, \<open>in_progress\<close>, \<open>awaiting\<close> and
  \<open>resolved\<close>. A ticket created by \<open>create_ticket\<close> has the status \<open>new\<close>. A
  request handled by \<open>_handle_ticket_action\<close> leaves the status as it was or sets
  \<open>in_progress\<close>, \<open>awaiting\<close> or \<open>resolved\<close>. So a declared status stays declared
  over every sequence of handled requests, and every ticket reached from a created one has
  a declared status.
\<close>

theorem ticket_status_valid:
  "map fst TicketStatus_choices = [''new'', ''in_progress'', ''awaiting'', ''resolved'']
   \<and> (valid_status x =
        (x = ''new'' \<or> x = ''in_progress'' \<or> x = ''awaiting'' \<or> x = ''resolved''))
   \<and> (\<forall>r s0. create_ticket w request new_pk c = (r, Some s0) \<longrightarrow>
          status (st_ticket s0) = ''new'')
   \<and> (\<forall>r s'. handle_ticket_action w s request is_ti_user = (r, s') \<longrightarrow>
          status (st_ticket s') = status (st_ticket s)
          \<or> status (st_ticket s') = ''in_progress'' \<or> status (st_ticket s') = ''awaiting''
          \<or> status (st_ticket s') = ''resolved'')
   \<and> (valid_status (status (st_ticket s)) \<longrightarrow>
          valid_status (status (st_ticket (run_actions s steps))))
   \<and> (\<forall>r s0. create_ticket w request new_pk c = (r, Some s0) \<longrightarrow>
          valid_status (status (st_ticket (run_actions s0 steps))))"
proof (intro conjI allI impI)
  show "map fst TicketStatus_choices = [''new'', ''in_progress'', ''awaiting'', ''resolved'']"
    by (simp add: TicketStatus_choices_def TicketStatus_NEW_def
      TicketStatus_IN_PROGRESS_def TicketStatus_AWAITING_def TicketStatus_RESOLVED_def)
next
  show "valid_status x =
        (x = ''new'' \<or> x = ''in_progress'' \<or> x = ''awaiting'' \<or> x = ''resolved'')"
    by (rule valid_status_iff)
next
  fix r s0
  assume "create_ticket w request new_pk c = (r, Some s0)"
  then show "status (st_ticket s0) = ''new''"
    using create_ticket_status [of w request new_pk c r s0] by (simp add: TicketStatus_NEW_def)
next
  fix r s'
  assume "handle_ticket_action w s request is_ti_user = (r, s')"
  then show "status (st_ticket s') = status (st_ticket s)
          \<or> status (st_ticket s') = ''in_progress'' \<or> status (st_ticket s') = ''awaiting''
          \<or> status (st_ticket s') = ''resolved''"
    using handle_ticket_action_status [of w s request is_ti_user]
    by (simp add: TicketStatus_IN_PROGRESS_def TicketStatus_AWAITING_def
        TicketStatus_RESOLVED_def)
next
  assume "valid_status (status (st_ticket s))"
  then show "valid_status (status (st_ticket (run_actions s steps)))"
    by (rule run_actions_valid)
next
  fix r s0
  assume "create_ticket w request new_pk c = (r, Some s0)"
  then have "status (st_ticket s0) = ''new''"
    using create_ticket_status [of w request new_pk c r s0] by (simp add: TicketStatus_NEW_def)
  then have "valid_status (status (st_ticket s0))" by (simp add: valid_status_iff)
  then show "valid_status (status (st_ticket (run_actions s0 steps)))"
    by (rule run_actions_valid)
qed

lemma update_ticket_status_full:
  fixes out :: "serialized_ticket effect list"
  assumes sw: "send_whatsapp_message (w_env w) (w_http_get w) (w_http_post w) (w_time w)
      (st_cache s) (w_group_jid w) = (rw, c', out)"
  shows "update_ticket_status w s ns a rt ep pb =
     ((case rw of Inl e \<Rightarrow> if is_request_exception e then Inr () else Inl e | Inr v \<Rightarrow> Inr ()),
      s\<lparr>st_ticket := updated_ticket (w_now w) (st_ticket s) ns a rt,
        st_events := \<lparr>ev_ticket = pk (st_ticket s), ev_type = EventType_STATUS,
            ev_status = Some ns, ev_performed_by = pb\<rparr> # st_events s,
        st_cache := c',
        st_out := st_out s
          @ broadcast_ticket_event w ''ticket_status_changed''
              (updated_ticket (w_now w) (st_ticket s) ns a rt)
              (Some (dict_update [(''status'', ns)] (case ep of None \<Rightarrow> [] | Some x \<Rightarrow> x)))
          @ out
          @ (if whatsapp_returns rw \<and> email (created_by (st_ticket s)) \<noteq> []
             then [SendMail (email (created_by (st_ticket s)))] else [])\<rparr>)"
proof -
  have p: "pk (set_status now t x y z) = pk t" "status (set_status now t x y z) = x"
    "created_by (set_status now t x y z) = created_by t" for now t x y z
    by (simp_all add: set_status_def Let_def split: option.splits)
  have d: "dict_update base [] = base" for base by (simp add: dict_update_def)
  show ?thesis
    unfolding update_ticket_status_def notify_whatsapp_def notify_ticket_email_def Let_def
    by (cases rw; cases a; cases ep)
      (simp_all add: sw p d updated_ticket_def Let_def whatsapp_returns_def
        split: option.splits)
qed

lemma dict_update_nonempty: "base \<noteq> [] \<Longrightarrow> dict_update base extra \<noteq> []"
proof -
  have u: "AList.update k v m \<noteq> []" if "m \<noteq> []" for k :: string and v :: string and m
    using that by (cases m) auto
  have "m \<noteq> [] \<Longrightarrow> fold (\<lambda>kv m. AList.update (fst kv) (snd kv) m) extra m \<noteq> []" for m
    by (induction extra arbitrary: m) (simp_all add: u)
  then show "base \<noteq> [] \<Longrightarrow> dict_update base extra \<noteq> []"
    by (simp add: dict_update_def)
qed

lemma send_whatsapp_message_posts:
  fixes out :: "'a effect list"
  assumes "send_whatsapp_message env http post now c destination = (rw, c', out)"
    "normalize_destination destination = Inr (dest, ty)"
    "ty = ''group'' \<longrightarrow> fst (ensure_group_exists env http now c dest) = Inr ()"
  shows "out \<noteq> [] \<and> last out = HttpPost (WAPI_SEND_URL env) dest \<and> rw = post_result post dest"
  using assms unfolding send_whatsapp_message_def
  by (auto split: prod.splits sum.splits if_splits)

text \<open>
  C4, as the code has it. A status update always records one event of type
  \<open>status_change\<close>. It broadcasts \<open>ticket_status_changed\<close> with the serialised
  ticket to the group \<open>tickets\<close> when a channel layer is configured, and nothing
  otherwise. It then runs \<open>send_whatsapp_message\<close> for the configured group, whose
  calls follow the broadcast; when the destination is accepted (for a group JID: found in
  the group list) the last of them is the POST of the message. When that step returns or
  raises a \<open>RequestException\<close>, the update returns normally and, as its last call,
  mails the creator if the creator has an address.
\<close>

theorem update_ticket_status_channels:
  fixes out :: "serialized_ticket effect list"
  shows
  "update_ticket_status w s new_status assigned resolution_text extra_payload performed_by
      = (r, s')
   \<and> send_whatsapp_message (w_env w) (w_http_get w) (w_http_post w) (w_time w) (st_cache s)
        (w_group_jid w) = (rw, c', out)
   \<longrightarrow>
     st_events s' = status_event (st_ticket s) new_status performed_by # st_events s
   \<and> ev_type (status_event (st_ticket s) new_status performed_by) = ''status_change''
   \<and> (\<exists>rest. st_out s' = st_out s
          @ (if w_channel_layer w
             then [GroupSend ''tickets'' ''ticket_status_changed'' (serialize_ticket (st_ticket s'))
                     (Some (dict_update [(''status'', new_status)]
                        (case extra_payload of None \<Rightarrow> [] | Some x \<Rightarrow> x)))]
             else [])
          @ out @ rest)
   \<and> (\<forall>dest ty. normalize_destination (w_group_jid w) = Inr (dest, ty)
          \<and> (ty = ''group'' \<longrightarrow>
               fst (ensure_group_exists (w_env w) (w_http_get w) (w_time w) (st_cache s) dest)
                 = Inr ())
        \<longrightarrow> out \<noteq> [] \<and> last out = HttpPost (WAPI_SEND_URL (w_env w)) dest)
   \<and> (whatsapp_returns rw \<longrightarrow>
        r = Inr ()
        \<and> st_out s' = st_out s
          @ (if w_channel_layer w
             then [GroupSend ''tickets'' ''ticket_status_changed'' (serialize_ticket (st_ticket s'))
                     (Some (dict_update [(''status'', new_status)]
                        (case extra_payload of None \<Rightarrow> [] | Some x \<Rightarrow> x)))]
             else [])
          @ out
          @ (if email (created_by (st_ticket s')) \<noteq> []
             then [SendMail (email (created_by (st_ticket s')))] else []))"
proof (intro impI, elim conjE)
  assume u: "update_ticket_status w s new_status assigned resolution_text extra_payload
      performed_by = (r, s')"
    and sw: "send_whatsapp_message (w_env w) (w_http_get w) (w_http_post w) (w_time w)
      (st_cache s) (w_group_jid w) = (rw, c', out)"
  let ?t = "updated_ticket (w_now w) (st_ticket s) new_status assigned resolution_text"
  let ?p = "dict_update [(''status'', new_status)]
              (case extra_payload of None \<Rightarrow> [] | Some x \<Rightarrow> x)"
  let ?b = "if w_channel_layer w
             then [GroupSend ''tickets'' ''ticket_status_changed'' (serialize_ticket (st_ticket s'))
                     (Some ?p)]
             else []"
  let ?m = "if whatsapp_returns rw \<and> email (created_by (st_ticket s)) \<noteq> []
             then [SendMail (email (created_by (st_ticket s)))] else []"
  from update_ticket_status_full [OF sw, of new_status assigned resolution_text extra_payload
      performed_by] u
  have r: "r = (case rw of Inl e \<Rightarrow> if is_request_exception e then Inr () else Inl e
                | Inr v \<Rightarrow> Inr ())"
    and t: "st_ticket s' = ?t"
    and ev: "st_events s' = status_event (st_ticket s) new_status performed_by # st_events s"
    and o: "st_out s' = st_out s
        @ broadcast_ticket_event w ''ticket_status_changed'' ?t (Some ?p) @ out @ ?m"
    by (auto simp: status_event_def)
  have pn: "?p \<noteq> []" by (rule dict_update_nonempty) simp
  have b: "broadcast_ticket_event w ''ticket_status_changed'' ?t (Some ?p) = ?b"
    using pn by (simp add: broadcast_ticket_event_def t)
  have cb: "created_by (st_ticket s') = created_by (st_ticket s)"
    by (simp add: t updated_ticket_fields)
  have evt: "ev_type (status_event (st_ticket s) new_status performed_by) = ''status_change''"
    by (simp add: status_event_def EventType_STATUS_def)
  have out1: "\<exists>rest. st_out s' = st_out s @ ?b @ out @ rest"
    using o b by auto
  have posts: "\<forall>dest ty. normalize_destination (w_group_jid w) = Inr (dest, ty)
          \<and> (ty = ''group'' \<longrightarrow>
               fst (ensure_group_exists (w_env w) (w_http_get w) (w_time w) (st_cache s) dest)
                 = Inr ())
        \<longrightarrow> out \<noteq> [] \<and> last out = HttpPost (WAPI_SEND_URL (w_env w)) dest"
    using send_whatsapp_message_posts [OF sw] by blast
  have ret: "r = Inr () \<and> st_out s' = st_out s @ ?b @ out
          @ (if email (created_by (st_ticket s')) \<noteq> []
             then [SendMail (email (created_by (st_ticket s')))] else [])"
    if "whatsapp_returns rw"
    using that r o b cb by (auto simp: whatsapp_returns_def split: sum.splits)
  from ev evt out1 posts ret
  show "st_events s' = status_event (st_ticket s) new_status performed_by # st_events s
   \<and> ev_type (status_event (st_ticket s) new_status performed_by) = ''status_change''
   \<and> (\<exists>rest. st_out s' = st_out s @ ?b @ out @ rest)
   \<and> (\<forall>dest ty. normalize_destination (w_group_jid w) = Inr (dest, ty)
          \<and> (ty = ''group'' \<longrightarrow>
               fst (ensure_group_exists (w_env w) (w_http_get w) (w_time w) (st_cache s) dest)
                 = Inr ())
        \<longrightarrow> out \<noteq> [] \<and> last out = HttpPost (WAPI_SEND_URL (w_env w)) dest)
   \<and> (whatsapp_returns rw \<longrightarrow>
        r = Inr ()
        \<and> st_out s' = st_out s @ ?b @ out
          @ (if email (created_by (st_ticket s')) \<noteq> []
             then [SendMail (email (created_by (st_ticket s')))] else []))"
    by (intro conjI impI) blast+
qed

theorem update_ticket_status_channels_witness:
  "fst (update_ticket_status example_world example_state ''in_progress'' (Some example_ti)
          None None (Some example_ti)) = Inr ()
   \<and> st_out (snd (update_ticket_status example_world example_state ''in_progress''
          (Some example_ti) None None (Some example_ti)))
      = [GroupSend ''tickets'' ''ticket_status_changed''
           (serialize_ticket (example_ticket\<lparr>status := ''in_progress'',
              assigned_to := Some example_ti, working_users := [example_ti]\<rparr>))
           (Some [(''status'', ''in_progress'')]),
         HttpGet (WAPI_GET_ALL_GROUPS_URL default_environ),
         HttpPost (WAPI_SEND_URL default_environ) ''120363421981424263@g.us'',
         SendMail ''ana@example.com'']
   \<and> st_events (snd (update_ticket_status example_world example_state ''in_progress''
          (Some example_ti) None None (Some example_ti)))
      = [\<lparr>ev_ticket = 7, ev_type = ''status_change'', ev_status = Some ''in_progress'',
          ev_performed_by = Some example_ti\<rparr>]"
proof -
  let ?u = "update_ticket_status example_world example_state ''in_progress'' (Some example_ti)
          None None (Some example_ti)"
  let ?c = "\<lparr>cache_ts = Some 100,
       cache_groups = Some [JDict [(''id'', JStr ''120363421981424263@g.us''),
           (''name'', JStr ''Sem nome''), (''participantsCount'', JNull)]]\<rparr>"
  let ?out = "[HttpGet (WAPI_GET_ALL_GROUPS_URL default_environ),
         HttpPost (WAPI_SEND_URL default_environ) ''120363421981424263@g.us'']
           :: serialized_ticket effect list"
  have sw: "send_whatsapp_message (w_env example_world) (w_http_get example_world)
      (w_http_post example_world) (w_time example_world) (st_cache example_state)
      (w_group_jid example_world) = (Inr (JDict [(''status'', JStr ''sent'')]), ?c, ?out)"
    by code_simp
  have wr: "whatsapp_returns (Inr (JDict [(''status'', JStr ''sent'')]))"
    by (simp add: whatsapp_returns_def)
  have u: "?u = (fst ?u, snd ?u)" by simp
  from update_ticket_status_channels [of example_world example_state "''in_progress''"
      "Some example_ti" None None "Some example_ti" "fst ?u" "snd ?u"
      "Inr (JDict [(''status'', JStr ''sent'')])" ?c ?out] u sw wr
  have a: "fst ?u = Inr ()"
    and e: "st_events (snd ?u) = status_event (st_ticket example_state) ''in_progress''
        (Some example_ti) # st_events example_state"
    by blast+
  have o: "st_out (snd ?u)
      = [GroupSend ''tickets'' ''ticket_status_changed''
           (serialize_ticket (example_ticket\<lparr>status := ''in_progress'',
              assigned_to := Some example_ti, working_users := [example_ti]\<rparr>))
           (Some [(''status'', ''in_progress'')]),
         HttpGet (WAPI_GET_ALL_GROUPS_URL default_environ),
         HttpPost (WAPI_SEND_URL default_environ) ''120363421981424263@g.us'',
         SendMail ''ana@example.com'']"
    by code_simp
  have e': "status_event (st_ticket example_state) ''in_progress'' (Some example_ti)
        # st_events example_state
      = [\<lparr>ev_ticket = 7, ev_type = ''status_change'', ev_status = Some ''in_progress'',
          ev_performed_by = Some example_ti\<rparr>]"
    by (simp add: status_event_def example_state_def example_ticket_def EventType_STATUS_def)
  from a e e' o show ?thesis by simp
qed

text \<open>
  Without a channel layer the update reaches the WhatsApp group and the creator's mailbox
  but broadcasts nothing.
\<close>

theorem update_ticket_status_no_channel_layer:
  "fst (update_ticket_status (example_world\<lparr>w_channel_layer := False\<rparr>) example_state
          ''in_progress'' (Some example_ti) None None (Some example_ti)) = Inr ()
   \<and> st_out (snd (update_ticket_status (example_world\<lparr>w_channel_layer := False\<rparr>)
          example_state ''in_progress'' (Some example_ti) None None (Some example_ti)))
      = [HttpGet (WAPI_GET_ALL_GROUPS_URL default_environ),
         HttpPost (WAPI_SEND_URL default_environ) ''120363421981424263@g.us'',
         SendMail ''ana@example.com'']"
  by code_simp

text \<open>
  When the configured group is not in the service's group list, the \<open>ValueError\<close> of
  \<open>ensure_group_exists\<close> is not caught by \<open>_notify_whatsapp\<close>: the update is saved
  and broadcast, then the exception leaves \<open>_update_ticket_status\<close>, and neither the
  message nor the mail is sent.
\<close>

lemma update_ticket_status_group_missing:
  "fst (update_ticket_status (example_world\<lparr>w_http_get := (\<lambda>u. Inr (Response 200
             (Some (JList [JDict [(''id'', JStr ''other@g.us'')]]))))\<rparr>) example_state
          ''in_progress'' (Some example_ti) None None (Some example_ti)) = Inl ValueError
   \<and> st_out (snd (update_ticket_status (example_world\<lparr>w_http_get := (\<lambda>u. Inr (Response 200
             (Some (JList [JDict [(''id'', JStr ''other@g.us'')]]))))\<rparr>) example_state
          ''in_progress'' (Some example_ti) None None (Some example_ti)))
      = [GroupSend ''tickets'' ''ticket_status_changed''
           (serialize_ticket (example_ticket\<lparr>status := ''in_progress'',
              assigned_to := Some example_ti, working_users := [example_ti]\<rparr>))
           (Some [(''status'', ''in_progress'')]),
         HttpGet (WAPI_GET_ALL_GROUPS_URL default_environ)]"
  by code_simp

text \<open>
  A ticket with no working users, taken in progress by an IT user: the update makes the
  user the owner and a working user at once.
\<close>

theorem status_update_adds_owner_to_working_users:
  "working_users (st_ticket example_state) = []
   \<and> assigned_to (st_ticket (snd (update_ticket_status example_world example_state
          ''in_progress'' (Some example_ti) None None (Some example_ti)))) = Some example_ti
   \<and> working_users (st_ticket (snd (update_ticket_status example_world example_state
          ''in_progress'' (Some example_ti) None None (Some example_ti)))) = [example_ti]"
  by code_simp

theorem update_ticket_status_working_users_witness:
  "working_users (st_ticket (snd (update_ticket_status example_world example_state
          ''in_progress'' (Some example_ti) None None (Some example_ti)))) = [example_ti]
   \<and> working_users (st_ticket (snd (update_ticket_status example_world example_state
          ''awaiting'' None None (Some [(''pause_reason'', ''pe'')]) (Some example_ti)))) = []
   \<and> assigned_to (st_ticket (add_working_user example_state example_ti)) = None
   \<and> working_users (st_ticket (add_working_user example_state example_ti)) = [example_ti]"
proof -
  let ?u = "update_ticket_status example_world example_state
          ''in_progress'' (Some example_ti) None None (Some example_ti)"
  let ?v = "update_ticket_status example_world example_state
          ''awaiting'' None None (Some [(''pause_reason'', ''pe'')]) (Some example_ti)"
  have w0: "working_users (st_ticket example_state) = []"
    "assigned_to (st_ticket example_state) = None"
    "status (st_ticket example_state) \<noteq> TicketStatus_RESOLVED"
    by (simp_all add: example_state_def example_ticket_def TicketStatus_RESOLVED_def)
  have m: "m2m_add example_ti [] = [example_ti]" by (simp add: m2m_add_def)
  from update_ticket_status_working_users [of example_world example_state "''in_progress''"
      "Some example_ti" None None "Some example_ti" "fst ?u" "snd ?u" example_ti]
  have a: "working_users (st_ticket (snd ?u)) = [example_ti]"
    and c: "assigned_to (st_ticket (add_working_user example_state example_ti)) = None"
    and d: "working_users (st_ticket (add_working_user example_state example_ti)) = [example_ti]"
    by (simp_all add: w0 m)
  from update_ticket_status_working_users [of example_world example_state "''awaiting''"
      None None "Some [(''pause_reason'', ''pe'')]" "Some example_ti" "fst ?v" "snd ?v"]
  have b: "working_users (st_ticket (snd ?v)) = []"
    by (simp add: w0)
  from a b c d show ?thesis by simp
qed

theorem update_ticket_status_resolved_at_witness:
  "resolved_at (st_ticket (snd (update_ticket_status example_world example_state
          ''resolved'' None (Some ''Cabo trocado'') None (Some example_ti)))) = Some 1000
   \<and> resolution (st_ticket (snd (update_ticket_status example_world example_state
          ''resolved'' None (Some ''Cabo trocado'') None (Some example_ti))))
        = Some ''Cabo trocado''
   \<and> resolved_at (st_ticket (snd (update_ticket_status example_world
          (example_state\<lparr>st_ticket := example_ticket\<lparr>status := ''resolved'',
              resolved_at := Some 950, resolution := Some ''Cabo trocado''\<rparr>\<rparr>)
          ''in_progress'' None None None (Some example_ti)))) = None
   \<and> resolution (st_ticket (snd (update_ticket_status example_world
          (example_state\<lparr>st_ticket := example_ticket\<lparr>status := ''resolved'',
              resolved_at := Some 950, resolution := Some ''Cabo trocado''\<rparr>\<rparr>)
          ''resolved'' None None None (Some example_ti)))) = Some ''Cabo trocado''"
proof -
  let ?s1 = "example_state\<lparr>st_ticket := example_ticket\<lparr>status := ''resolved'',
              resolved_at := Some 950, resolution := Some ''Cabo trocado''\<rparr>\<rparr>"
  let ?a = "update_ticket_status example_world example_state
          ''resolved'' None (Some ''Cabo trocado'') None (Some example_ti)"
  let ?b = "update_ticket_status example_world ?s1 ''in_progress'' None None None
          (Some example_ti)"
  let ?c = "update_ticket_status example_world ?s1 ''resolved'' None None None
          (Some example_ti)"
  have n: "w_now example_world = 1000" by (simp add: example_world_def)
  have r: "''resolved'' = TicketStatus_RESOLVED" "''in_progress'' \<noteq> TicketStatus_RESOLVED"
    by (simp_all add: TicketStatus_RESOLVED_def)
  from update_ticket_status_resolved_at [of example_world example_state "''resolved''" None
      "Some ''Cabo trocado''" None "Some example_ti" "fst ?a" "snd ?a"] r n
  have a: "resolved_at (st_ticket (snd ?a)) = Some 1000"
    "resolution (st_ticket (snd ?a)) = Some ''Cabo trocado''" by simp_all
  from update_ticket_status_resolved_at [of example_world ?s1 "''in_progress''" None
      None None "Some example_ti" "fst ?b" "snd ?b"] r
  have b: "resolved_at (st_ticket (snd ?b)) = None" by simp
  from update_ticket_status_resolved_at [of example_world ?s1 "''resolved''" None
      None None "Some example_ti" "fst ?c" "snd ?c"] r
  have c: "resolution (st_ticket (snd ?c)) = Some ''Cabo trocado''" by simp
  from a b c show ?thesis by simp
qed

theorem ticket_status_valid_witness:
  "map_option (\<lambda>s. status (st_ticket s)) (snd (create_ticket example_world example_create 7 empty_cache))
     = Some ''new''
   \<and> map (\<lambda>n. status (st_ticket (run_actions example_state (take n example_steps)))) [0, 1, 2, 3, 4]
     = [''new'', ''in_progress'', ''awaiting'', ''resolved'', ''in_progress'']
   \<and> valid_status (status (st_ticket (run_actions example_state example_steps)))"
proof -
  have a: "map_option (\<lambda>s. status (st_ticket s))
      (snd (create_ticket example_world example_create 7 empty_cache)) = Some ''new''"
    by code_simp
  have b: "map (\<lambda>n. status (st_ticket (run_actions example_state (take n example_steps))))
      [0, 1, 2, 3, 4] = [''new'', ''in_progress'', ''awaiting'', ''resolved'', ''in_progress'']"
    by code_simp
  have v: "valid_status (status (st_ticket example_state))"
    by code_simp
  from ticket_status_valid [where s = example_state and steps = example_steps] v
  have c: "valid_status (status (st_ticket (run_actions example_state example_steps)))"
    by blast
  from a b c show ?thesis by simp
qed

section \<open>Properties of the views of the IT group\<close>

lemma sum_length_filter:
  "finite A \<Longrightarrow> field ` set queryset \<subseteq> A \<Longrightarrow>
   (\<Sum>k\<in>A. int (length (filter (\<lambda>t. field t = k) queryset))) = int (length queryset)"
proof (induction queryset)
  case Nil
  then show ?case by simp
next
  case (Cons t queryset)
  then have IH: "(\<Sum>k\<in>A. int (length (filter (\<lambda>t. field t = k) queryset))) = int (length queryset)"
    and A: "finite A" "field t \<in> A"
    by simp_all
  have "(\<Sum>k\<in>A. int (length (filter (\<lambda>x. field x = k) (t # queryset))))
      = (\<Sum>k\<in>A. (if field t = k then 1 else 0) + int (length (filter (\<lambda>x. field x = k) queryset)))"
    by (rule sum.cong) simp_all
  also have "\<dots> = (\<Sum>k\<in>A. (if field t = k then 1 else 0))
      + (\<Sum>k\<in>A. int (length (filter (\<lambda>x. field x = k) queryset)))"
    by (simp add: sum.distrib)
  also have "(\<Sum>k\<in>A. (if field t = k then 1 else 0 :: int)) = 1"
    using A by simp
  finally show ?case using IH by simp
qed

lemma sum_list_alist:
  "distinct (map fst al) \<Longrightarrow>
   sum_list (map snd al) = (\<Sum>k\<in>fst ` set al. the (map_of al k))" for al :: "(string \<times> int) list"
proof (induction al)
  case Nil
  then show ?case by simp
next
  case (Cons p al)
  then have d: "distinct (map fst al)" and n: "fst p \<notin> fst ` set al" by auto
  have "(\<Sum>k\<in>fst ` set (p # al). the (map_of (p # al) k))
      = the (map_of (p # al) (fst p)) + (\<Sum>k\<in>fst ` set al. the (map_of (p # al) k))"
    using n by simp
  also have "(\<Sum>k\<in>fst ` set al. the (map_of (p # al) k)) = (\<Sum>k\<in>fst ` set al. the (map_of al k))"
  proof (rule sum.cong)
    fix k assume "k \<in> fst ` set al"
    with n have "k \<noteq> fst p" by blast
    then show "the (map_of (p # al) k) = the (map_of al k)" by (cases p) simp
  qed simp
  finally show ?case using Cons.IH [OF d] by (cases p) simp
qed

lemma fold_update_props:
  "map_of (fold (\<lambda>row counts. AList.update (fst row) (snd row) counts) rows m)
      = map_of m ++ map_of (rev rows)"
  "fst ` set (fold (\<lambda>row counts. AList.update (fst row) (snd row) counts) rows m)
      = fst ` set m \<union> fst ` set rows"
  "distinct (map fst m) \<Longrightarrow>
     distinct (map fst (fold (\<lambda>row counts. AList.update (fst row) (snd row) counts) rows m))"
proof (induction rows arbitrary: m)
  case Nil
  { case 1 show ?case by simp }
  { case 2 show ?case by simp }
  { case 3 then show ?case by simp }
next
  case (Cons r rows)
  { case 1 show ?case
      by (simp add: Cons.IH(1) update_conv' map_add_def fun_eq_iff split: option.splits) }
  { case 2 show ?case by (auto simp: Cons.IH(2) dom_update) }
  { case 3 then show ?case by (simp add: Cons.IH(3) distinct_update) }
qed

lemma map_of_values_count:
  "map_of (rev (values_count field queryset)) k =
     (if k \<in> field ` set queryset
      then Some (int (length (filter (\<lambda>t. field t = k) queryset))) else None)"
proof -
  have "map_of (rev (map (\<lambda>k. (k, g k)) ks)) k = (if k \<in> set ks then Some (g k) else None)"
    for ks :: "'a list" and g :: "'a \<Rightarrow> int"
    by (induction ks) (auto simp: map_add_def split: option.splits)
  then show ?thesis by (simp add: values_count_def)
qed

lemma count_dict_map_of:
  "map_of (count_dict choices field queryset) k =
     (if k \<in> field ` set queryset \<or> k \<in> fst ` set choices
      then Some (int (length (filter (\<lambda>t. field t = k) queryset))) else None)"
proof -
  have init: "map_of (map (\<lambda>key. (key, 0::int)) (map fst choices)) k
      = (if k \<in> fst ` set choices then Some 0 else None)"
    by (induction choices) auto
  have z: "k \<notin> field ` set queryset \<Longrightarrow> length (filter (\<lambda>t. field t = k) queryset) = 0"
    by (auto simp: filter_empty_conv)
  show ?thesis
    unfolding count_dict_def fold_update_props(1) map_add_def map_of_values_count init
    using z by auto
qed

lemma count_dict_keys:
  "fst ` set (count_dict choices field queryset) = fst ` set choices \<union> field ` set queryset"
proof -
  have "fst ` set (values_count field queryset) = field ` set queryset"
    by (force simp: values_count_def)
  moreover have "fst ` set (map (\<lambda>key. (key, 0::int)) (map fst choices)) = fst ` set choices"
    by force
  ultimately show ?thesis
    unfolding count_dict_def fold_update_props(2) by simp
qed

lemma count_dict_distinct:
  "distinct (map fst choices) \<Longrightarrow> distinct (map fst (count_dict choices field queryset))"
  unfolding count_dict_def
  by (rule fold_update_props(3)) (simp add: comp_def)

lemma count_dict_sum:
  assumes "distinct (map fst choices)"
  shows "sum_list (map snd (count_dict choices field queryset)) = int (length queryset)"
proof -
  let ?al = "count_dict choices field queryset"
  have "sum_list (map snd ?al) = (\<Sum>k\<in>fst ` set ?al. the (map_of ?al k))"
    by (rule sum_list_alist) (rule count_dict_distinct [OF assms])
  also have "\<dots> = (\<Sum>k\<in>fst ` set ?al. int (length (filter (\<lambda>t. field t = k) queryset)))"
    by (rule sum.cong) (auto simp: count_dict_map_of count_dict_keys)
  also have "\<dots> = int (length queryset)"
    by (rule sum_length_filter) (auto simp: count_dict_keys)
  finally show ?thesis .
qed

lemma choices_distinct:
  "distinct (map fst TicketStatus_choices)" "distinct (map fst TicketUrgency_choices)"
  "distinct (map fst TicketType_choices)"
  by (simp_all add: TicketStatus_choices_def TicketUrgency_choices_def TicketType_choices_def
      TicketStatus_NEW_def TicketStatus_IN_PROGRESS_def TicketStatus_AWAITING_def
      TicketStatus_RESOLVED_def TicketUrgency_NORMAL_def TicketType_INCIDENT_def)

lemma ti_reports_page:
  assumes "ti_reports parse_date local_date v table = (Inr (Page template ctx), table')"
  shows "ctx =
      \<lparr>total_tickets = int (length (report_queryset parse_date local_date (v_GET v) table)),
       status_counts = count_dict TicketStatus_choices status
          (report_queryset parse_date local_date (v_GET v) table),
       urgency_counts = count_dict TicketUrgency_choices urgency
          (report_queryset parse_date local_date (v_GET v) table),
       type_counts = count_dict TicketType_choices ticket_type
          (report_queryset parse_date local_date (v_GET v) table),
       monthly_data = sort_key fst
          (values_count (\<lambda>t. fst (local_date (created_at t)) * 12
                               + fst (snd (local_date (created_at t))))
             (report_queryset parse_date local_date (v_GET v) table)),
       resolved_count = (case map_of (count_dict TicketStatus_choices status
             (report_queryset parse_date local_date (v_GET v) table)) TicketStatus_RESOLVED of
                          None \<Rightarrow> 0 | Some n \<Rightarrow> n),
       pending_count = int (length (report_queryset parse_date local_date (v_GET v) table))
          - (case map_of (count_dict TicketStatus_choices status
             (report_queryset parse_date local_date (v_GET v) table)) TicketStatus_RESOLVED of
                          None \<Rightarrow> 0 | Some n \<Rightarrow> n)\<rparr>"
  using assms
  unfolding ti_reports_def login_required_def ti_reports_body_def Let_def
  by (auto split: option.splits if_splits)

text \<open>
  C8. When \<open>ti_reports\<close> renders its page, the counts are taken over the filtered
  queryset: \<open>total_tickets\<close> is its size; each of the count maps for status,
  urgency and type has every declared key, has each key once, and maps every key it has
  to the number of tickets of the queryset with that value (so a declared key that no
  ticket has is mapped to 0); the counts of each map add up to \<open>total_tickets\<close>;
  \<open>resolved_count\<close> is the number of resolved tickets and \<open>pending_count\<close> is
  \<open>total_tickets\<close> minus \<open>resolved_count\<close>.
\<close>

theorem ti_reports_counts:
  "ti_reports parse_date local_date v table = (Inr (Page template ctx), table') \<longrightarrow>
     total_tickets ctx = int (length (report_queryset parse_date local_date (v_GET v) table))
   \<and> declared TicketStatus_choices \<subseteq> fst ` set (status_counts ctx)
   \<and> declared TicketUrgency_choices \<subseteq> fst ` set (urgency_counts ctx)
   \<and> declared TicketType_choices \<subseteq> fst ` set (type_counts ctx)
   \<and> distinct (map fst (status_counts ctx)) \<and> distinct (map fst (urgency_counts ctx))
   \<and> distinct (map fst (type_counts ctx))
   \<and> (\<forall>k. k \<in> fst ` set (status_counts ctx) \<longrightarrow>
          map_of (status_counts ctx) k
            = Some (count_of status k (report_queryset parse_date local_date (v_GET v) table)))
   \<and> (\<forall>k. k \<in> fst ` set (urgency_counts ctx) \<longrightarrow>
          map_of (urgency_counts ctx) k
            = Some (count_of urgency k (report_queryset parse_date local_date (v_GET v) table)))
   \<and> (\<forall>k. k \<in> fst ` set (type_counts ctx) \<longrightarrow>
          map_of (type_counts ctx) k
            = Some (count_of ticket_type k
                (report_queryset parse_date local_date (v_GET v) table)))
   \<and> sum_list (map snd (status_counts ctx)) = total_tickets ctx
   \<and> sum_list (map snd (urgency_counts ctx)) = total_tickets ctx
   \<and> sum_list (map snd (type_counts ctx)) = total_tickets ctx
   \<and> resolved_count ctx
        = count_of status ''resolved'' (report_queryset parse_date local_date (v_GET v) table)
   \<and> pending_count ctx = total_tickets ctx - resolved_count ctx"
proof
  assume a: "ti_reports parse_date local_date v table = (Inr (Page template ctx), table')"
  let ?q = "report_queryset parse_date local_date (v_GET v) table"
  note c = ti_reports_page [OF a]
  have f: "total_tickets ctx = int (length ?q)"
    "status_counts ctx = count_dict TicketStatus_choices status ?q"
    "urgency_counts ctx = count_dict TicketUrgency_choices urgency ?q"
    "type_counts ctx = count_dict TicketType_choices ticket_type ?q"
    "resolved_count ctx = (case map_of (count_dict TicketStatus_choices status ?q)
        TicketStatus_RESOLVED of None \<Rightarrow> 0 | Some n \<Rightarrow> n)"
    "pending_count ctx = int (length ?q) - resolved_count ctx"
    by (simp_all add: c)
  have r: "TicketStatus_RESOLVED \<in> fst ` set TicketStatus_choices"
    by (simp add: TicketStatus_choices_def)
  have res: "resolved_count ctx = count_of status ''resolved'' ?q"
    using r by (simp add: f(5) count_dict_map_of count_of_def TicketStatus_RESOLVED_def)
  show "total_tickets ctx = int (length ?q)
   \<and> declared TicketStatus_choices \<subseteq> fst ` set (status_counts ctx)
   \<and> declared TicketUrgency_choices \<subseteq> fst ` set (urgency_counts ctx)
   \<and> declared TicketType_choices \<subseteq> fst ` set (type_counts ctx)
   \<and> distinct (map fst (status_counts ctx)) \<and> distinct (map fst (urgency_counts ctx))
   \<and> distinct (map fst (type_counts ctx))
   \<and> (\<forall>k. k \<in> fst ` set (status_counts ctx) \<longrightarrow>
          map_of (status_counts ctx) k = Some (count_of status k ?q))
   \<and> (\<forall>k. k \<in> fst ` set (urgency_counts ctx) \<longrightarrow>
          map_of (urgency_counts ctx) k = Some (count_of urgency k ?q))
   \<and> (\<forall>k. k \<in> fst ` set (type_counts ctx) \<longrightarrow>
          map_of (type_counts ctx) k = Some (count_of ticket_type k ?q))
   \<and> sum_list (map snd (status_counts ctx)) = total_tickets ctx
   \<and> sum_list (map snd (urgency_counts ctx)) = total_tickets ctx
   \<and> sum_list (map snd (type_counts ctx)) = total_tickets ctx
   \<and> resolved_count ctx = count_of status ''resolved'' ?q
   \<and> pending_count ctx = total_tickets ctx - resolved_count ctx"
    unfolding f(1-4) declared_def
    by (intro conjI allI impI)
      (auto simp: count_dict_keys count_dict_distinct choices_distinct count_dict_sum
        count_dict_map_of count_of_def res [unfolded f(1-4)] f(6) [unfolded f(1-4)])
qed

theorem ti_reports_counts_witness:
  "ti_reports (\<lambda>x. None) (\<lambda>i. (2024, 5, 1)) (example_visit (Some example_ti)) example_table
     = (Inr (Page ''reports.html''
          \<lparr>total_tickets = 3,
           status_counts = [(''new'', 1), (''in_progress'', 0), (''awaiting'', 0),
                            (''resolved'', 2)],
           urgency_counts = [(''low'', 0), (''normal'', 2), (''medium'', 0), (''high'', 1),
                             (''urgent'', 0)],
           type_counts = [(''incident'', 2), (''request'', 1), (''improvement'', 0),
                          (''programado'', 0)],
           monthly_data = [(24293, 3)],
           resolved_count = 2,
           pending_count = 1\<rparr>), example_table)
   \<and> sum_list (map snd [(''new'', 1::int), (''in_progress'', 0), (''awaiting'', 0),
                            (''resolved'', 2)]) = 3"
proof -
  let ?ctx = "\<lparr>total_tickets = 3,
           status_counts = [(''new'', 1), (''in_progress'', 0), (''awaiting'', 0),
                            (''resolved'', 2)],
           urgency_counts = [(''low'', 0), (''normal'', 2), (''medium'', 0), (''high'', 1),
                             (''urgent'', 0)],
           type_counts = [(''incident'', 2), (''request'', 1), (''improvement'', 0),
                          (''programado'', 0)],
           monthly_data = [(24293, 3)],
           resolved_count = 2,
           pending_count = 1\<rparr>"
  have e: "ti_reports (\<lambda>x. None) (\<lambda>i. (2024, 5, 1)) (example_visit (Some example_ti))
      example_table = (Inr (Page ''reports.html'' ?ctx), example_table)"
    by code_simp
  from ti_reports_counts [of "\<lambda>x. None" "\<lambda>i. (2024, 5, 1)" "example_visit (Some example_ti)"
      example_table "''reports.html''" ?ctx example_table] e
  have "sum_list (map snd (status_counts ?ctx)) = total_tickets ?ctx" by blast
  with e show ?thesis by simp
qed

lemma fetch_loop_error:
  "fst (fetch_loop http urls response tried) = Inl e \<Longrightarrow> \<exists>url. http url = Inl e"
  by (induction urls arbitrary: response tried) (auto split: sum.splits if_splits)

lemma groups_of_response_error:
  "groups_of_response response = Inl e \<Longrightarrow> e = HTTPError \<or> e = JSONDecodeError \<or> e = TypeError"
  by (auto simp: groups_of_response_def raise_for_status_def response_json_def
      normalize_groups_payload_def split: if_splits option.splits sum.splits
      dest: py_iter_error)

lemma list_wapi_groups_error:
  assumes "fst (list_wapi_groups env http) = Inl e"
  shows "(\<exists>url. http url = Inl e) \<or> e = HTTPError \<or> e = JSONDecodeError \<or> e = TypeError"
proof (cases "fetch_loop http (endpoints env) None []")
  case (Pair r tried)
  show ?thesis
  proof (cases r)
    case (Inl x)
    with Pair assms have "fst (fetch_loop http (endpoints env) None []) = Inl e"
      by (simp add: list_wapi_groups_def)
    from fetch_loop_error [OF this] show ?thesis by blast
  next
    case (Inr response)
    with Pair assms have "groups_of_response response = Inl e"
      by (simp add: list_wapi_groups_def)
    from groups_of_response_error [OF this] show ?thesis by blast
  qed
qed

lemma get_object_or_404_error:
  "get_object_or_404 to_pk table raw = Inl e \<Longrightarrow> e = Http404 \<or> e = ValueError"
  by (auto simp: get_object_or_404_def split: option.splits)

lemma manage_users_allowed:
  "is_ti (req_user request) \<Longrightarrow>
   fst (manage_users_body to_pk request users) \<noteq> Inl PermissionDenied"
  unfolding manage_users_body_def Let_def
  by (auto split: sum.splits prod.splits dest!: get_object_or_404_error)

lemma inventory_management_allowed:
  "is_ti (req_user request) \<Longrightarrow>
   fst (inventory_management_body request items) \<noteq> Inl PermissionDenied"
  unfolding inventory_management_body_def
  by (auto split: option.splits)

lemma ti_reports_allowed:
  "is_ti (req_user request) \<Longrightarrow>
   fst (ti_reports_body parse_date local_date request table) \<noteq> Inl PermissionDenied"
  unfolding ti_reports_body_def Let_def by simp

lemma finished_tickets_allowed:
  "is_ti (req_user request) \<Longrightarrow>
   fst (finished_tickets_body icontains request table) \<noteq> Inl PermissionDenied"
  unfolding finished_tickets_body_def Let_def by simp

lemma whatsapp_config_allowed:
  assumes "is_ti (req_user request)" "\<forall>url. w_http_get w url \<noteq> Inl PermissionDenied"
  shows "fst (whatsapp_config_body w to_pk request table) \<noteq> Inl PermissionDenied"
proof -
  have l: "fst (list_wapi_groups (w_env w) (w_http_get w)) \<noteq> Inl PermissionDenied"
    using list_wapi_groups_error [of "w_env w" "w_http_get w" PermissionDenied] assms(2)
    by auto
  show ?thesis
    using assms(1) l unfolding whatsapp_config_body_def Let_def
    by (auto split: sum.splits prod.splits option.splits dest!: get_object_or_404_error)
qed

lemma login_required_user:
  "v_user v = Some u \<Longrightarrow>
   login_required view v db =
     view \<lparr>req_user = u, req_method = v_method v, req_POST = v_POST v, req_GET = v_GET v\<rparr> db"
  by (simp add: login_required_def)

text \<open>
  C5. For every user who is logged in and a member of the group \<open>TI\<close>, the views
  \<open>manage_users\<close>, \<open>inventory_management\<close>, \<open>ti_reports\<close>,
  \<open>finished_tickets\<close> and \<open>whatsapp_config\<close> do not raise \<open>PermissionDenied\<close>
  (for \<open>whatsapp_config\<close>, which lets exceptions of the HTTP client through, given
  that the client raises none of that class). For every user who is logged in and is
  neither in that group nor staff, each of these views raises \<open>PermissionDenied\<close> and
  changes nothing.
\<close>

theorem ti_views_permission:
  "(\<forall>u. v_user v = Some u \<and> TI_GROUP_NAME \<in> set (user_groups u) \<longrightarrow>
       fst (manage_users to_pk v users) \<noteq> Inl PermissionDenied
     \<and> fst (inventory_management v items) \<noteq> Inl PermissionDenied
     \<and> fst (ti_reports parse_date local_date v tickets) \<noteq> Inl PermissionDenied
     \<and> fst (finished_tickets icontains v tickets) \<noteq> Inl PermissionDenied
     \<and> ((\<forall>url. w_http_get w url \<noteq> Inl PermissionDenied) \<longrightarrow>
          fst (whatsapp_config w to_pk v recipients) \<noteq> Inl PermissionDenied))
   \<and> (\<forall>u. v_user v = Some u \<and> TI_GROUP_NAME \<notin> set (user_groups u) \<and> \<not> is_staff u \<longrightarrow>
       manage_users to_pk v users = (Inl PermissionDenied, users)
     \<and> inventory_management v items = (Inl PermissionDenied, items)
     \<and> ti_reports parse_date local_date v tickets = (Inl PermissionDenied, tickets)
     \<and> finished_tickets icontains v tickets = (Inl PermissionDenied, tickets)
     \<and> whatsapp_config w to_pk v recipients = (Inl PermissionDenied, recipients))"
proof (intro conjI allI impI; elim conjE)
  fix u
  assume u: "v_user v = Some u" and g: "TI_GROUP_NAME \<in> set (user_groups u)"
  let ?r = "\<lparr>req_user = u, req_method = v_method v, req_POST = v_POST v, req_GET = v_GET v\<rparr>"
  from g have t: "is_ti (req_user ?r)" by (simp add: is_ti_def)
  show "fst (manage_users to_pk v users) \<noteq> Inl PermissionDenied"
    using manage_users_allowed [OF t] by (simp add: manage_users_def login_required_user [OF u])
  show "fst (inventory_management v items) \<noteq> Inl PermissionDenied"
    using inventory_management_allowed [OF t]
    by (simp add: inventory_management_def login_required_user [OF u])
  show "fst (ti_reports parse_date local_date v tickets) \<noteq> Inl PermissionDenied"
    using ti_reports_allowed [OF t] by (simp add: ti_reports_def login_required_user [OF u])
  show "fst (finished_tickets icontains v tickets) \<noteq> Inl PermissionDenied"
    using finished_tickets_allowed [OF t]
    by (simp add: finished_tickets_def login_required_user [OF u])
  show "fst (whatsapp_config w to_pk v recipients) \<noteq> Inl PermissionDenied"
    if "\<forall>url. w_http_get w url \<noteq> Inl PermissionDenied"
    using whatsapp_config_allowed [OF t that]
    by (simp add: whatsapp_config_def login_required_user [OF u])
next
  fix u
  assume u: "v_user v = Some u" and g: "TI_GROUP_NAME \<notin> set (user_groups u)"
    and st: "\<not> is_staff u"
  let ?r = "\<lparr>req_user = u, req_method = v_method v, req_POST = v_POST v, req_GET = v_GET v\<rparr>"
  from g st have t: "\<not> is_ti (req_user ?r)" by (simp add: is_ti_def)
  show "manage_users to_pk v users = (Inl PermissionDenied, users)"
    using t by (simp add: manage_users_def login_required_user [OF u] manage_users_body_def)
  show "inventory_management v items = (Inl PermissionDenied, items)"
    using t
    by (simp add: inventory_management_def login_required_user [OF u]
        inventory_management_body_def)
  show "ti_reports parse_date local_date v tickets = (Inl PermissionDenied, tickets)"
    using t by (simp add: ti_reports_def login_required_user [OF u] ti_reports_body_def)
  show "finished_tickets icontains v tickets = (Inl PermissionDenied, tickets)"
    using t
    by (simp add: finished_tickets_def login_required_user [OF u] finished_tickets_body_def)
  show "whatsapp_config w to_pk v recipients = (Inl PermissionDenied, recipients)"
    using t
    by (simp add: whatsapp_config_def login_required_user [OF u] whatsapp_config_body_def)
qed

theorem ti_views_permission_witness:
  "manage_users (\<lambda>x. None) (example_visit (Some example_ti)) [example_user, example_ti]
     = (Inr (Page ''users_management.html'' ([example_user, example_ti], [example_user])),
        [example_user, example_ti])
   \<and> fst (whatsapp_config example_world (\<lambda>x. None) (example_visit (Some example_ti)) [])
        \<noteq> Inl PermissionDenied
   \<and> fst (inventory_management (example_visit (Some example_ti)) []) \<noteq> Inl PermissionDenied
   \<and> manage_users (\<lambda>x. None) (example_visit (Some example_user)) [example_user, example_ti]
     = (Inl PermissionDenied, [example_user, example_ti])
   \<and> finished_tickets (\<lambda>a b. False) (example_visit (Some example_user)) example_table
     = (Inl PermissionDenied, example_table)
   \<and> manage_users (\<lambda>x. None) (example_visit None) [example_user, example_ti]
     = (Inr RedirectToLogin, [example_user, example_ti])"
proof -
  have ti: "v_user (example_visit (Some example_ti)) = Some example_ti
      \<and> TI_GROUP_NAME \<in> set (user_groups example_ti)"
    by (simp add: example_visit_def example_ti_def TI_GROUP_NAME_def)
  have us: "v_user (example_visit (Some example_user)) = Some example_user
      \<and> TI_GROUP_NAME \<notin> set (user_groups example_user) \<and> \<not> is_staff example_user"
    by (simp add: example_visit_def example_user_def TI_GROUP_NAME_def)
  have wd: "\<forall>url. w_http_get example_world url \<noteq> Inl PermissionDenied"
    by (simp add: example_world_def)
  have a: "manage_users (\<lambda>x. None) (example_visit (Some example_ti)) [example_user, example_ti]
     = (Inr (Page ''users_management.html'' ([example_user, example_ti], [example_user])),
        [example_user, example_ti])"
    by code_simp
  have f: "manage_users (\<lambda>x. None) (example_visit None) [example_user, example_ti]
     = (Inr RedirectToLogin, [example_user, example_ti])"
    by code_simp
  from ti_views_permission [where v = "example_visit (Some example_ti)" and w = example_world
      and to_pk = "\<lambda>x. None" and recipients = "[]" and items = "[]"] ti wd
  have b: "fst (whatsapp_config example_world (\<lambda>x. None) (example_visit (Some example_ti)) [])
        \<noteq> Inl PermissionDenied"
    and c: "fst (inventory_management (example_visit (Some example_ti)) [])
        \<noteq> Inl PermissionDenied"
    by blast+
  from ti_views_permission [where v = "example_visit (Some example_user)"
      and to_pk = "\<lambda>x. None" and users = "[example_user, example_ti]"
      and tickets = example_table and icontains = "\<lambda>a b. False"] us
  have d: "manage_users (\<lambda>x. None) (example_visit (Some example_user))
        [example_user, example_ti] = (Inl PermissionDenied, [example_user, example_ti])"
    and e: "finished_tickets (\<lambda>a b. False) (example_visit (Some example_user)) example_table
     = (Inl PermissionDenied, example_table)"
    by blast+
  from a b c d e f show ?thesis by simp
qed

end
